theory Spec2Isabelle
  imports Main "HOL-Library.Word" "HOL-Library.Char_ord" "HOL-Library.List_Lexorder"
begin

unbundle bit_operations_syntax

section \<open>Bytes and errors\<close>

type_synonym byte = "8 word"

text \<open>Go's two-valued returns \<open>(value, error)\<close> are sums: \<open>Inl\<close> carries the error.\<close>

definition bindE :: "'e + 'a \<Rightarrow> ('a \<Rightarrow> 'e + 'b) \<Rightarrow> 'e + 'b" where
  "bindE m f = (case m of Inl e \<Rightarrow> Inl e | Inr x \<Rightarrow> f x)"

section \<open>Opcodes of the structure tape (trie/proof\_generator.go)\<close>

text \<open>\<open>type Instruction uint8\<close> with a \<open>const ( ... = iota ... )\<close> block: the constants
  are numbered in the order of their declaration, starting at 0.\<close>

datatype Instruction =
    OpLeaf | OpLeafHash | OpExtension | OpExtensionHash | OpBranch | OpBranchHash
  | OpHash | OpCode | OpAccountLeaf | OpAccountLeafHash | OpContractLeaf
  | OpContractLeafHash | OpEmptyRoot

definition Instruction_decls :: "Instruction list" where
  "Instruction_decls =
     [OpLeaf, OpLeafHash, OpExtension, OpExtensionHash, OpBranch, OpBranchHash,
      OpHash, OpCode, OpAccountLeaf, OpAccountLeafHash, OpContractLeaf,
      OpContractLeafHash, OpEmptyRoot]"

fun iota_index :: "'a list \<Rightarrow> 'a \<Rightarrow> nat \<Rightarrow> nat" where
  "iota_index [] x i = i"
| "iota_index (y # ys) x i = (if x = y then i else iota_index ys x (Suc i))"

definition Instruction_value :: "Instruction \<Rightarrow> byte" where
  "Instruction_value op = of_nat (iota_index Instruction_decls op 0)"

section \<open>RLP\<close>

text \<open>Modelled from the spec: the \<open>rlp\<close> package (\<open>rlp.EncodeToBytes\<close>,
  \<open>rlp.DecodeBytes\<close>) is not among the source files. Section 4.A gives its rules:
  a single byte below 0x80 stands for itself, a string of at most 55 bytes gets the
  one-byte prefix 0x80 + length, a longer one 0xB7 + length-of-length followed by the
  big-endian length; lists likewise from 0xC0 and 0xF7; integers are big-endian without
  leading zeros, zero being the empty string. The decoder is the strict inverse: it
  refuses non-canonical sizes and integers, and a struct is a list with exactly one item
  per field.\<close>

datatype rlp_error =
    ErrEOF | ErrExpectedString | ErrExpectedList | ErrCanonInt | ErrCanonSize
  | ErrValueTooLarge | ErrUintOverflow | ErrMoreThanOneValue | ErrNegativeBigInt
  | ErrInputStringTooShort | ErrInputStringTooLong
  | ErrTooFewElements string | ErrTooManyElements string

function be_bytes :: "nat \<Rightarrow> byte list" where
  "be_bytes n = (if n = 0 then [] else be_bytes (n div 256) @ [of_nat (n mod 256)])"
  by pat_completeness auto
termination
  by (relation "measure id") auto

declare be_bytes.simps [simp del]

definition from_be :: "byte list \<Rightarrow> nat" where
  "from_be bs = foldl (\<lambda>acc b. acc * 256 + unat b) 0 bs"

definition rlp_string :: "byte list \<Rightarrow> byte list" where
  "rlp_string bs =
     (if length bs = 1 \<and> hd bs < 0x80 then bs
      else if length bs \<le> 55 then of_nat (0x80 + length bs) # bs
      else of_nat (0xB7 + length (be_bytes (length bs))) # be_bytes (length bs) @ bs)"

definition rlp_list :: "byte list \<Rightarrow> byte list" where
  "rlp_list payload =
     (if length payload \<le> 55 then of_nat (0xC0 + length payload) # payload
      else of_nat (0xF7 + length (be_bytes (length payload)))
             # be_bytes (length payload) @ payload)"

definition rlp_uint64 :: "64 word \<Rightarrow> byte list" where
  "rlp_uint64 n = rlp_string (be_bytes (unat n))"

text \<open>A \<open>*big.Int\<close>: a nil pointer is written as the empty string, a negative value
  is refused.\<close>

definition rlp_bigint :: "int option \<Rightarrow> rlp_error + byte list" where
  "rlp_bigint p =
     (case p of
        None \<Rightarrow> Inr [0x80]
      | Some i \<Rightarrow> if i < 0 then Inl ErrNegativeBigInt
                  else Inr (rlp_string (be_bytes (nat i))))"

datatype rlp_kind = RByte | RString | RList

definition readSize :: "byte list \<Rightarrow> nat \<Rightarrow> rlp_error + (nat \<times> byte list)" where
  "readSize bs n =
     (if length bs < n then Inl ErrEOF
      else if n = 0 \<or> hd bs = 0 then Inl ErrCanonSize
      else if from_be (take n bs) < 56 then Inl ErrCanonSize
      else Inr (from_be (take n bs), drop n bs))"

definition rlp_content ::
  "rlp_kind \<Rightarrow> nat \<Rightarrow> byte list \<Rightarrow> rlp_error + (rlp_kind \<times> byte list \<times> byte list)" where
  "rlp_content k n bs =
     (if length bs < n then Inl ErrValueTooLarge
      else if k = RString \<and> n = 1 \<and> hd bs < 0x80 then Inl ErrCanonSize
      else Inr (k, take n bs, drop n bs))"

text \<open>The next item of a stream: its kind, its content and the bytes after it.\<close>

definition rlp_item :: "byte list \<Rightarrow> rlp_error + (rlp_kind \<times> byte list \<times> byte list)" where
  "rlp_item bs =
     (case bs of
        [] \<Rightarrow> Inl ErrEOF
      | b # rest \<Rightarrow>
          if b < 0x80 then Inr (RByte, [b], rest)
          else if b < 0xB8 then rlp_content RString (unat b - 0x80) rest
          else if b < 0xC0 then
            bindE (readSize rest (unat b - 0xB7)) (\<lambda>(n, rest'). rlp_content RString n rest')
          else if b < 0xF8 then rlp_content RList (unat b - 0xC0) rest
          else bindE (readSize rest (unat b - 0xF7)) (\<lambda>(n, rest'). rlp_content RList n rest'))"

definition decode_uint64 :: "byte list \<Rightarrow> rlp_error + (64 word \<times> byte list)" where
  "decode_uint64 bs =
     bindE (rlp_item bs) (\<lambda>(k, c, rest).
       case k of
         RList \<Rightarrow> Inl ErrExpectedString
       | RByte \<Rightarrow> if c = [0] then Inl ErrCanonInt else Inr (of_nat (from_be c), rest)
       | RString \<Rightarrow>
           if length c > 8 then Inl ErrUintOverflow
           else if c \<noteq> [] \<and> hd c = 0 then Inl ErrCanonInt
           else Inr (of_nat (from_be c), rest))"

definition decode_bytes :: "byte list \<Rightarrow> rlp_error + (byte list \<times> byte list)" where
  "decode_bytes bs =
     bindE (rlp_item bs) (\<lambda>(k, c, rest).
       if k = RList then Inl ErrExpectedString else Inr (c, rest))"

definition decode_bigint :: "byte list \<Rightarrow> rlp_error + (int \<times> byte list)" where
  "decode_bigint bs =
     bindE (decode_bytes bs) (\<lambda>(c, rest).
       if c \<noteq> [] \<and> hd c = 0 then Inl ErrCanonInt else Inr (int (from_be c), rest))"

text \<open>A \<open>common.Hash\<close> is a \<open>[32]byte\<close> array: the string must have exactly 32 bytes.\<close>

definition decode_hash :: "byte list \<Rightarrow> rlp_error + (byte list \<times> byte list)" where
  "decode_hash bs =
     bindE (rlp_item bs) (\<lambda>(k, c, rest).
       if k = RList then Inl ErrExpectedString
       else if length c > 32 then Inl ErrInputStringTooLong
       else if length c < 32 then Inl ErrInputStringTooShort
       else Inr (c, rest))"

text \<open>A struct is decoded from a list: \<open>struct_open\<close> enters the list, \<open>struct_field\<close>
  reads one field (the list ending early is "too few elements"), \<open>struct_close\<close>
  checks that the list and the input are used up.\<close>

definition struct_open :: "byte list \<Rightarrow> rlp_error + (byte list \<times> byte list)" where
  "struct_open enc =
     bindE (rlp_item enc) (\<lambda>(k, c, rest).
       if k \<noteq> RList then Inl ErrExpectedList else Inr (c, rest))"

definition struct_field ::
  "string \<Rightarrow> (byte list \<Rightarrow> rlp_error + ('a \<times> byte list)) \<Rightarrow> byte list
     \<Rightarrow> rlp_error + ('a \<times> byte list)" where
  "struct_field typ dec c = (if c = [] then Inl (ErrTooFewElements typ) else dec c)"

definition struct_close :: "string \<Rightarrow> byte list \<Rightarrow> byte list \<Rightarrow> 'a \<Rightarrow> rlp_error + 'a" where
  "struct_close typ c rest v =
     (if c \<noteq> [] then Inl (ErrTooManyElements typ)
      else if rest \<noteq> [] then Inl ErrMoreThanOneValue
      else Inr v)"

section \<open>The account codec (core/types/accounts/account.go)\<close>

text \<open>\<open>Balance\<close> is a \<open>*big.Int\<close> and \<open>CodeHash\<close> a slice: \<open>None\<close> is Go's nil.
  \<open>Root\<close> is a \<open>common.Hash\<close>, an array of 32 bytes.\<close>

record Account =
  Nonce :: "64 word"
  Balance :: "int option"
  Root :: "byte list"
  CodeHash :: "byte list option"
  StorageSize :: "64 word option"

record ExtAccount =
  ext_Nonce :: "64 word"
  ext_Balance :: "int option"

record accountWithoutStorage =
  aws_Nonce :: "64 word"
  aws_Balance :: "int option"
  aws_Root :: "byte list"
  aws_CodeHash :: "byte list option"

datatype error =
    PanicNilPointer | PanicIndexOutOfRange | Panic string | RlpError rlp_error
  | ErrResolveNilRoot
  | ErrWrongHash "byte list" "byte list" nat "byte list option" "byte list"
  | ErrWrongHashEmbedded "byte list" nat "byte list option"

definition accountSizeWithoutData :: nat where
  "accountSizeWithoutData = 1"

definition minAccountSizeWithRootAndCodeHash :: nat where
  "minAccountSizeWithRootAndCodeHash = 60"

text \<open>\<open>crypto.Keccak256(nil)\<close>: the hash function is not part of the sources, its
  value at the empty input is the constant of section 6 of the specification.\<close>

definition emptyCodeHash :: "byte list" where
  "emptyCodeHash =
     [0xc5, 0xd2, 0x46, 0x01, 0x86, 0xf7, 0x23, 0x3c, 0x92, 0x7e, 0x7d, 0xb2, 0xdc, 0xc7,
      0x03, 0xc0, 0xe5, 0x00, 0xb6, 0x53, 0xca, 0x82, 0x27, 0x3b, 0x7b, 0xfa, 0xd8, 0x04,
      0x5d, 0x85, 0xa4, 0x70]"

definition emptyRoot :: "byte list" where
  "emptyRoot =
     [0x56, 0xe8, 0x1f, 0x17, 0x1b, 0xcc, 0x55, 0xa6, 0xff, 0x83, 0x45, 0xe6, 0x92, 0xc0,
      0xf8, 0x6e, 0x5b, 0x48, 0xe0, 0x1b, 0x99, 0x6c, 0xad, 0xc0, 0x01, 0x62, 0x2f, 0xb5,
      0xe3, 0x63, 0xb4, 0x21]"

definition zeroHash :: "byte list" where
  "zeroHash = replicate 32 0"

text \<open>\<open>new(Account)\<close>, \<open>new(ExtAccount)\<close>: Go's zero values.\<close>

definition new_Account :: Account where
  "new_Account =
     \<lparr>Nonce = 0, Balance = None, Root = zeroHash, CodeHash = None, StorageSize = None\<rparr>"

definition new_ExtAccount :: ExtAccount where
  "new_ExtAccount = \<lparr>ext_Nonce = 0, ext_Balance = None\<rparr>"

definition IsEmptyCodeHash :: "Account \<Rightarrow> bool" where
  "IsEmptyCodeHash a = (CodeHash a = None \<or> CodeHash a = Some emptyCodeHash)"

definition IsEmptyRoot :: "Account \<Rightarrow> bool" where
  "IsEmptyRoot a = (Root a = emptyRoot \<or> Root a = zeroHash)"

definition setDefaultBalance :: "Account \<Rightarrow> Account" where
  "setDefaultBalance a = (if Balance a = None then a\<lparr>Balance := Some 0\<rparr> else a)"

definition setDefaultCodeHash :: "Account \<Rightarrow> Account" where
  "setDefaultCodeHash a = (if IsEmptyCodeHash a then a\<lparr>CodeHash := Some emptyCodeHash\<rparr> else a)"

definition setDefaultRoot :: "Account \<Rightarrow> Account" where
  "setDefaultRoot a = (if IsEmptyRoot a then a\<lparr>Root := emptyRoot\<rparr> else a)"

definition ext_setDefaultBalance :: "ExtAccount \<Rightarrow> ExtAccount" where
  "ext_setDefaultBalance e = (if ext_Balance e = None then e\<lparr>ext_Balance := Some 0\<rparr> else e)"

text \<open>\<open>a.Balance.Set(srcAccount.Balance)\<close> dereferences the source's balance: a nil
  pointer there is a run-time panic. \<open>make([]byte, len(src))\<close> followed by \<open>copy\<close>
  yields a slice that is never nil, also when the source is nil.\<close>

definition setCodeHash :: "Account \<Rightarrow> byte list option \<Rightarrow> Account" where
  "setCodeHash a codeHash =
     a\<lparr>CodeHash := Some (case codeHash of None \<Rightarrow> [] | Some c \<Rightarrow> c)\<rparr>"

definition fill :: "Account \<Rightarrow> Account \<Rightarrow> error + Account" where
  "fill a srcAccount =
     (let a1 = setDefaultBalance
                 (setCodeHash (a\<lparr>Root := Root srcAccount\<rparr>) (CodeHash srcAccount))
      in case Balance srcAccount of
           None \<Rightarrow> Inl PanicNilPointer
         | Some b \<Rightarrow>
             Inr (a1\<lparr>Balance := Some b, Nonce := Nonce srcAccount,
                     StorageSize := (case StorageSize srcAccount of
                                       None \<Rightarrow> StorageSize a1
                                     | Some s \<Rightarrow> Some s)\<rparr>))"

definition ext_fill :: "ExtAccount \<Rightarrow> Account \<Rightarrow> error + ExtAccount" where
  "ext_fill extAcc srcAccount =
     (let e1 = ext_setDefaultBalance extAcc
      in case Balance srcAccount of
           None \<Rightarrow> Inl PanicNilPointer
         | Some b \<Rightarrow> Inr (e1\<lparr>ext_Balance := Some b, ext_Nonce := Nonce srcAccount\<rparr>))"

definition newAccountCopy :: "Account \<Rightarrow> error + Account" where
  "newAccountCopy srcAccount =
     bindE (fill new_Account srcAccount)
       (\<lambda>a. Inr (setDefaultRoot (setDefaultCodeHash (setDefaultBalance a))))"

definition fillAccountWithoutStorage :: "Account \<Rightarrow> accountWithoutStorage \<Rightarrow> error + Account" where
  "fillAccountWithoutStorage a srcAccount =
     (let a1 = setDefaultBalance
                 (setCodeHash (a\<lparr>Root := aws_Root srcAccount\<rparr>) (aws_CodeHash srcAccount))
      in case aws_Balance srcAccount of
           None \<Rightarrow> Inl PanicNilPointer
         | Some b \<Rightarrow>
             Inr (a1\<lparr>Balance := Some b, Nonce := aws_Nonce srcAccount,
                     StorageSize := None\<rparr>))"

definition fillFromExtAccount :: "Account \<Rightarrow> ExtAccount \<Rightarrow> error + Account" where
  "fillFromExtAccount a srcExtAccount =
     (let a1 = setDefaultBalance (a\<lparr>Nonce := ext_Nonce srcExtAccount\<rparr>)
      in case ext_Balance srcExtAccount of
           None \<Rightarrow> Inl PanicNilPointer
         | Some b \<Rightarrow>
             Inr (a1\<lparr>Balance := Some b, CodeHash := Some emptyCodeHash,
                     Root := emptyRoot\<rparr>))"

subsection \<open>What \<open>rlp.EncodeToBytes\<close> and \<open>rlp.DecodeBytes\<close> do on the three structs\<close>

definition liftR :: "rlp_error + 'a \<Rightarrow> error + 'a" where
  "liftR m = (case m of Inl e \<Rightarrow> Inl (RlpError e) | Inr x \<Rightarrow> Inr x)"

definition rlp_bytes :: "byte list option \<Rightarrow> byte list" where
  "rlp_bytes p = rlp_string (case p of None \<Rightarrow> [] | Some c \<Rightarrow> c)"

definition encode_ExtAccount :: "ExtAccount \<Rightarrow> rlp_error + byte list" where
  "encode_ExtAccount e =
     bindE (rlp_bigint (ext_Balance e)) (\<lambda>b. Inr (rlp_list (rlp_uint64 (ext_Nonce e) @ b)))"

definition encode_accountWithoutStorage :: "accountWithoutStorage \<Rightarrow> rlp_error + byte list" where
  "encode_accountWithoutStorage s =
     bindE (rlp_bigint (aws_Balance s)) (\<lambda>b.
       Inr (rlp_list (rlp_uint64 (aws_Nonce s) @ b @ rlp_string (aws_Root s)
                        @ rlp_bytes (aws_CodeHash s))))"

text \<open>\<open>StorageSize\<close> is a \<open>*uint64\<close>: a nil pointer is written as the empty string.\<close>

definition encode_Account :: "Account \<Rightarrow> rlp_error + byte list" where
  "encode_Account a =
     bindE (rlp_bigint (Balance a)) (\<lambda>b.
       Inr (rlp_list (rlp_uint64 (Nonce a) @ b @ rlp_string (Root a) @ rlp_bytes (CodeHash a)
                        @ (case StorageSize a of None \<Rightarrow> [0x80] | Some s \<Rightarrow> rlp_uint64 s))))"

definition decode_ExtAccount :: "byte list \<Rightarrow> rlp_error + ExtAccount" where
  "decode_ExtAccount enc =
     bindE (struct_open enc) (\<lambda>(c0, rest).
     bindE (struct_field ''accounts.ExtAccount'' decode_uint64 c0) (\<lambda>(n, c1).
     bindE (struct_field ''accounts.ExtAccount'' decode_bigint c1) (\<lambda>(b, c2).
       struct_close ''accounts.ExtAccount'' c2 rest
         \<lparr>ext_Nonce = n, ext_Balance = Some b\<rparr>)))"

definition decode_accountWithoutStorage :: "byte list \<Rightarrow> rlp_error + accountWithoutStorage" where
  "decode_accountWithoutStorage enc =
     bindE (struct_open enc) (\<lambda>(c0, rest).
     bindE (struct_field ''accounts.accountWithoutStorage'' decode_uint64 c0) (\<lambda>(n, c1).
     bindE (struct_field ''accounts.accountWithoutStorage'' decode_bigint c1) (\<lambda>(b, c2).
     bindE (struct_field ''accounts.accountWithoutStorage'' decode_hash c2) (\<lambda>(r, c3).
     bindE (struct_field ''accounts.accountWithoutStorage'' decode_bytes c3) (\<lambda>(h, c4).
       struct_close ''accounts.accountWithoutStorage'' c4 rest
         \<lparr>aws_Nonce = n, aws_Balance = Some b, aws_Root = r, aws_CodeHash = Some h\<rparr>)))))"

definition decode_Account :: "byte list \<Rightarrow> rlp_error + Account" where
  "decode_Account enc =
     bindE (struct_open enc) (\<lambda>(c0, rest).
     bindE (struct_field ''accounts.Account'' decode_uint64 c0) (\<lambda>(n, c1).
     bindE (struct_field ''accounts.Account'' decode_bigint c1) (\<lambda>(b, c2).
     bindE (struct_field ''accounts.Account'' decode_hash c2) (\<lambda>(r, c3).
     bindE (struct_field ''accounts.Account'' decode_bytes c3) (\<lambda>(h, c4).
     bindE (struct_field ''accounts.Account'' decode_uint64 c4) (\<lambda>(s, c5).
       struct_close ''accounts.Account'' c5 rest
         \<lparr>Nonce = n, Balance = Some b, Root = r, CodeHash = Some h,
          StorageSize = Some s\<rparr>))))))"

subsection \<open>\<open>Encode\<close> and \<open>Decode\<close>\<close>

definition Account_Encode :: "Account \<Rightarrow> bool \<Rightarrow> error + byte list" where
  "Account_Encode a enableStorageSize =
     (if IsEmptyCodeHash a \<and> IsEmptyRoot a then
        if (Balance a = None \<or> Balance a = Some 0) \<and> Nonce a = 0 then Inr [192]
        else bindE (ext_fill new_ExtAccount a)
               (\<lambda>e. liftR (encode_ExtAccount (ext_setDefaultBalance e)))
      else
        bindE (newAccountCopy a) (\<lambda>acc.
          if \<not> enableStorageSize \<or> StorageSize acc = None then
            liftR (encode_accountWithoutStorage
                     \<lparr>aws_Nonce = Nonce acc, aws_Balance = Balance acc,
                      aws_Root = Root acc, aws_CodeHash = CodeHash acc\<rparr>)
          else liftR (encode_Account acc)))"

text \<open>The method \<open>(a *Account) Decode(enc)\<close>: the receiver \<open>a\<close> is updated in place;
  on an error it is returned as it was. The comparison of the first error with the
  message "rlp: input list has too many elements for accounts.accountWithoutStorage"
  is the test for \<open>ErrTooManyElements\<close> of that type.\<close>

definition Account_Decode :: "Account \<Rightarrow> byte list \<Rightarrow> error + Account" where
  "Account_Decode a enc =
     (let encodedLength = length enc in
      if encodedLength = 0 then Inr a
      else if encodedLength = accountSizeWithoutData then
        Inr (setCodeHash (a\<lparr>Balance := Some 0\<rparr>) (Some emptyCodeHash) \<lparr>Root := emptyRoot\<rparr>)
      else if encodedLength < minAccountSizeWithRootAndCodeHash then
        (case decode_ExtAccount enc of
           Inl err \<Rightarrow> Inl (RlpError err)
         | Inr extData \<Rightarrow> fillFromExtAccount a extData)
      else
        (case decode_accountWithoutStorage enc of
           Inr dataWithoutStorage \<Rightarrow> fillAccountWithoutStorage a dataWithoutStorage
         | Inl err \<Rightarrow>
             if err \<noteq> ErrTooManyElements ''accounts.accountWithoutStorage''
             then Inl (RlpError err)
             else (case decode_Account enc of
                     Inl err' \<Rightarrow> Inl (RlpError err')
                   | Inr dataWithStorage \<Rightarrow> fill a dataWithStorage)))"

text \<open>The package-level \<open>Decode\<close> returns a pointer and an error: \<open>(nil, nil)\<close> is
  \<open>(None, None)\<close>. On an error the freshly allocated account is returned with it.
  (The nil dereference of \<open>fill\<close> cannot happen on this path: a decoded balance is
  never nil.)\<close>

definition Decode :: "byte list \<Rightarrow> Account option \<times> error option" where
  "Decode enc =
     (if length enc = 0 then (None, None)
      else case Account_Decode new_Account enc of
             Inl err \<Rightarrow> (Some new_Account, Some err)
           | Inr acc \<Rightarrow> (Some acc, None))"

section \<open>Trie nodes\<close>

text \<open>The node types are declared outside the given sources; their fields are the ones
  the sources read and write. \<open>node\<close> is a Go interface: \<open>NilNode\<close> is its nil. A \<open>valueNode\<close> is a byte
  slice: \<open>NilValueNode\<close> is the \<open>valueNode\<close> whose slice is nil. A
  \<open>fullNode\<close> has the array \<open>Children [17]node\<close>, a \<open>duoNode\<close> the fields \<open>mask\<close>,
  \<open>child1\<close>, \<open>child2\<close>, a \<open>shortNode\<close> the fields \<open>Key\<close> and \<open>Val\<close>; an
  \<open>accountNode\<close> carries nonce, balance, storage root and code hash beside the node of
  its storage trie. The \<open>flags\<close> of a node (its cached hash and the dirty bit) are left
  out: section 9 of the specification rules them out of the semantic state.\<close>

record accountFields =
  acc_Nonce :: "64 word"
  acc_Balance :: int
  acc_Root :: "byte list"
  acc_CodeHash :: "byte list"

datatype node =
    NilNode
  | ValueNode "byte list"
  | NilValueNode
  | HashNode "byte list"
  | ShortNode "byte list" node
  | DuoNode "32 word" node node
  | FullNode "node list"
  | AccountNode accountFields node

record Trie =
  root :: node

text \<open>Modelled from the spec: \<open>childrenIdx\<close> of a \<open>duoNode\<close> (section 3: two child
  indices \<open>i1 < i2\<close> in \<open>[0..15]\<close> with \<open>mask = (1<<i1) | (1<<i2)\<close>) returns the
  positions of the two lowest set bits of the mask, 0 where there is none.\<close>

definition childrenIdx :: "32 word \<Rightarrow> byte \<times> byte" where
  "childrenIdx msk =
     (case filter (bit msk) [0..<16] of
        [] \<Rightarrow> (0, 0)
      | [i1] \<Rightarrow> (of_nat i1, 0)
      | i1 # i2 # _ \<Rightarrow> (of_nat i1, of_nat i2))"

text \<open>Modelled from the spec: \<open>IsEmptyRoot\<close> and \<open>IsEmptyCodeHash\<close> of an
  \<open>accountNode\<close> compare with the two constants of section 3, as the methods of
  \<open>accounts.Account\<close> do.\<close>

definition acc_IsEmptyRoot :: "accountFields \<Rightarrow> bool" where
  "acc_IsEmptyRoot n = (acc_Root n = emptyRoot \<or> acc_Root n = zeroHash)"

definition acc_IsEmptyCodeHash :: "accountFields \<Rightarrow> bool" where
  "acc_IsEmptyCodeHash n = (acc_CodeHash n = emptyCodeHash)"

section \<open>CBOR items written by the tapes\<close>

text \<open>The encoder is the library \<open>github.com/ugorji/go/codec\<close> with a \<open>CborHandle\<close>.
  The builder hands it unsigned integers (major type 0), byte slices (major type 2, a
  nil slice being the CBOR nil 0xF6) and, for the header, a map (major type 5) from
  strings (major type 3) to integers; the head of an item holds the major type in the three
  high bits, and the argument in the five low bits or in the 1, 2, 4 or 8 bytes after
  it. With the handle's option \<open>Canonical\<close> set, the library writes the keys of a map with
  string keys in ascending order of the strings, compared byte by byte;
  \<open>cbor_map_canonical\<close> is the map as that option writes it.\<close>

definition be_fixed :: "nat \<Rightarrow> nat \<Rightarrow> byte list" where
  "be_fixed k n = map (\<lambda>i. of_nat (n div 256 ^ (k - 1 - i) mod 256)) [0..<k]"

definition cbor_head :: "nat \<Rightarrow> nat \<Rightarrow> byte list" where
  "cbor_head major n =
     (if n < 24 then [of_nat (32 * major + n)]
      else if n < 2 ^ 8 then of_nat (32 * major + 24) # be_fixed 1 n
      else if n < 2 ^ 16 then of_nat (32 * major + 25) # be_fixed 2 n
      else if n < 2 ^ 32 then of_nat (32 * major + 26) # be_fixed 4 n
      else of_nat (32 * major + 27) # be_fixed 8 n)"

definition cbor_uint :: "nat \<Rightarrow> byte list" where
  "cbor_uint n = cbor_head 0 n"

definition cbor_bytes :: "byte list \<Rightarrow> byte list" where
  "cbor_bytes bs = cbor_head 2 (length bs) @ bs"

definition cbor_bytes_opt :: "byte list option \<Rightarrow> byte list" where
  "cbor_bytes_opt p = (case p of None \<Rightarrow> [0xF6] | Some bs \<Rightarrow> cbor_bytes bs)"

definition cbor_text :: "string \<Rightarrow> byte list" where
  "cbor_text s = cbor_head 3 (length s) @ map (\<lambda>c. of_nat (of_char c)) s"

definition cbor_map_canonical :: "(string \<times> nat) list \<Rightarrow> byte list" where
  "cbor_map_canonical m =
     cbor_head 5 (length m)
       @ concat (map (\<lambda>(k, v). cbor_text k @ cbor_uint v) (sort_key fst m))"

text \<open>The order of RFC 7049, section 3.9 ("canonical CBOR"), for comparison: the keys
  of a map are sorted by their encodings, a shorter encoding first, encodings of the
  same length in ascending order of their bytes. The two sorts are stable, so sorting
  by the bytes and then by the length gives that order.\<close>

definition cbor_map_rfc7049 :: "(string \<times> nat) list \<Rightarrow> byte list" where
  "cbor_map_rfc7049 m =
     cbor_head 5 (length m)
       @ concat (map (\<lambda>(k, v). cbor_text k @ cbor_uint v)
           (sort_key (\<lambda>(k, v). length (cbor_text k))
              (sort_key (\<lambda>(k, v). cbor_text k) m)))"

section \<open>The block witness builder (trie/proof\_generator.go)\<close>

definition KeysTape :: string where "KeysTape = ''keys''"
definition ValuesTape :: string where "ValuesTape = ''values''"
definition HashesTape :: string where "HashesTape = ''hashes''"
definition CodesTape :: string where "CodesTape = ''codes''"
definition StructureTape :: string where "StructureTape = ''structure''"

text \<open>Each \<open>TapeBuilder\<close> is its byte buffer: an \<open>Encode\<close> appends the item to it. Writing
  to a \<open>bytes.Buffer\<close> has no failing path, so the \<open>err != nil\<close> returns of the supply
  and opcode methods never run, and the methods are state updates. The keys and
  hashes supplied are slices that are not nil; a value (a \<open>valueNode\<close>) and the code
  returned by \<open>codeFromHash\<close> may be nil, and a nil slice is written as the CBOR nil.\<close>

record BlockWitnessBuilder =
  Keys :: "byte list"
  Values :: "byte list"
  Hashes :: "byte list"
  Codes :: "byte list"
  Structure :: "byte list"

definition NewBlockWitnessBuilder :: BlockWitnessBuilder where
  "NewBlockWitnessBuilder = \<lparr>Keys = [], Values = [], Hashes = [], Codes = [], Structure = []\<rparr>"

definition supplyKey :: "BlockWitnessBuilder \<Rightarrow> byte list \<Rightarrow> BlockWitnessBuilder" where
  "supplyKey bwb key = bwb\<lparr>Keys := Keys bwb @ cbor_bytes key\<rparr>"

definition supplyValue :: "BlockWitnessBuilder \<Rightarrow> byte list option \<Rightarrow> BlockWitnessBuilder" where
  "supplyValue bwb v = bwb\<lparr>Values := Values bwb @ cbor_bytes_opt v\<rparr>"

definition supplyNumber :: "BlockWitnessBuilder \<Rightarrow> 64 word \<Rightarrow> BlockWitnessBuilder" where
  "supplyNumber bwb v = bwb\<lparr>Values := Values bwb @ cbor_uint (unat v)\<rparr>"

text \<open>\<open>value.Bytes()\<close> is the big-endian magnitude of the number, empty for zero.\<close>

definition supplyBigInt :: "BlockWitnessBuilder \<Rightarrow> int \<Rightarrow> BlockWitnessBuilder" where
  "supplyBigInt bwb v = bwb\<lparr>Values := Values bwb @ cbor_bytes (be_bytes (nat \<bar>v\<bar>))\<rparr>"

definition supplyCode :: "BlockWitnessBuilder \<Rightarrow> byte list option \<Rightarrow> BlockWitnessBuilder" where
  "supplyCode bwb code = bwb\<lparr>Codes := Codes bwb @ cbor_bytes_opt code\<rparr>"

definition supplyHash :: "BlockWitnessBuilder \<Rightarrow> byte list \<Rightarrow> BlockWitnessBuilder" where
  "supplyHash bwb h = bwb\<lparr>Hashes := Hashes bwb @ cbor_bytes h\<rparr>"

definition emit :: "BlockWitnessBuilder \<Rightarrow> Instruction \<Rightarrow> byte list \<Rightarrow> BlockWitnessBuilder" where
  "emit bwb opc operand =
     bwb\<lparr>Structure := Structure bwb @ cbor_uint (unat (Instruction_value opc)) @ operand\<rparr>"

definition leaf :: "BlockWitnessBuilder \<Rightarrow> nat \<Rightarrow> BlockWitnessBuilder" where
  "leaf bwb len = emit bwb OpLeaf (cbor_uint len)"

definition leafHash :: "BlockWitnessBuilder \<Rightarrow> nat \<Rightarrow> BlockWitnessBuilder" where
  "leafHash bwb len = emit bwb OpLeafHash (cbor_uint len)"

definition extension :: "BlockWitnessBuilder \<Rightarrow> byte list \<Rightarrow> BlockWitnessBuilder" where
  "extension bwb key = emit bwb OpExtension (cbor_bytes key)"

definition extensionHash :: "BlockWitnessBuilder \<Rightarrow> byte list \<Rightarrow> BlockWitnessBuilder" where
  "extensionHash bwb key = emit bwb OpExtensionHash (cbor_bytes key)"

definition branch :: "BlockWitnessBuilder \<Rightarrow> 32 word \<Rightarrow> BlockWitnessBuilder" where
  "branch bwb bitset = emit bwb OpBranch (cbor_uint (unat bitset))"

definition branchHash :: "BlockWitnessBuilder \<Rightarrow> 32 word \<Rightarrow> BlockWitnessBuilder" where
  "branchHash bwb bitset = emit bwb OpBranchHash (cbor_uint (unat bitset))"

definition hash :: "BlockWitnessBuilder \<Rightarrow> nat \<Rightarrow> BlockWitnessBuilder" where
  "hash bwb number = emit bwb OpHash (cbor_uint number)"

definition code :: "BlockWitnessBuilder \<Rightarrow> BlockWitnessBuilder" where
  "code bwb = emit bwb OpCode []"

definition accountLeaf :: "BlockWitnessBuilder \<Rightarrow> nat \<Rightarrow> BlockWitnessBuilder" where
  "accountLeaf bwb len = emit bwb OpAccountLeaf (cbor_uint len)"

definition accountLeafHash :: "BlockWitnessBuilder \<Rightarrow> nat \<Rightarrow> BlockWitnessBuilder" where
  "accountLeafHash bwb len = emit bwb OpAccountLeafHash (cbor_uint len)"

definition contractLeaf :: "BlockWitnessBuilder \<Rightarrow> nat \<Rightarrow> BlockWitnessBuilder" where
  "contractLeaf bwb len = emit bwb OpContractLeaf (cbor_uint len)"

definition contractLeafHash :: "BlockWitnessBuilder \<Rightarrow> nat \<Rightarrow> BlockWitnessBuilder" where
  "contractLeafHash bwb len = emit bwb OpContractLeafHash (cbor_uint len)"

definition emptyRoot_op :: "BlockWitnessBuilder \<Rightarrow> BlockWitnessBuilder" where
  "emptyRoot_op bwb = emit bwb OpEmptyRoot []"

text \<open>What \<open>makeBlockWitness\<close> is given from outside the sources: the resolve set with
  its query \<open>HashOnly\<close>, which may move the set's cursor and so returns the set too; the
  hasher, \<open>hr.hash(n, force, hn[:])\<close>, as the 32 bytes it leaves in \<open>hn\<close>; and the
  caller's \<open>codeFromHash\<close>.\<close>

record 'rs witness_env =
  HashOnly :: "'rs \<Rightarrow> byte list \<Rightarrow> bool \<times> 'rs"
  hr_hash :: "node \<Rightarrow> bool \<Rightarrow> byte list"
  codeFromHash :: "byte list \<Rightarrow> byte list option"

text \<open>The recursion of \<open>makeBlockWitness\<close>; \<open>fullNode_children\<close> is the loop over the
  17 children of a \<open>fullNode\<close>, carrying the index \<open>i\<close> and the bitmap (\<open>set\<close> in the source). A
  \<open>hashNode\<close> reaches the \<open>default\<close> case, which panics with the name of the type; a
  \<open>shortNode\<close> with an empty key panics at \<open>h[len(h)-1]\<close>.\<close>

fun makeBlockWitness ::
  "'rs witness_env \<Rightarrow> node \<Rightarrow> byte list \<Rightarrow> bool \<Rightarrow> BlockWitnessBuilder \<times> 'rs
     \<Rightarrow> error + (BlockWitnessBuilder \<times> 'rs)"
and fullNode_children ::
  "'rs witness_env \<Rightarrow> node list \<Rightarrow> nat \<Rightarrow> byte list \<Rightarrow> 32 word \<Rightarrow> BlockWitnessBuilder \<times> 'rs
     \<Rightarrow> error + (32 word \<times> BlockWitnessBuilder \<times> 'rs)"
where
  "makeBlockWitness env NilNode hex force (bwb, rs) = Inr (bwb, rs)"
| "makeBlockWitness env (ValueNode n) hex force (bwb, rs) = Inr (supplyValue bwb (Some n), rs)"
| "makeBlockWitness env NilValueNode hex force (bwb, rs) = Inr (supplyValue bwb None, rs)"
| "makeBlockWitness env (ShortNode key val) hex force (bwb, rs) =
     (case HashOnly env rs hex of (hashOnly, rs1) \<Rightarrow>
        if key = [] then Inl PanicIndexOutOfRange
        else
          let h = (if last key = 16 then butlast key else key);
              hexVal = hex @ h
          in case makeBlockWitness env val hexVal False (bwb, rs1) of
               Inl err \<Rightarrow> Inl err
             | Inr (bwb1, rs2) \<Rightarrow>
                 (case val of
                    ValueNode v \<Rightarrow>
                      let bwb2 = supplyKey bwb1 key in
                      if hashOnly then Inr (leafHash bwb2 (length key), rs2)
                      else Inr (leaf bwb2 (length key), rs2)
                  | NilValueNode \<Rightarrow>
                      let bwb2 = supplyKey bwb1 key in
                      if hashOnly then Inr (leafHash bwb2 (length key), rs2)
                      else Inr (leaf bwb2 (length key), rs2)
                  | AccountNode v st \<Rightarrow>
                      let bwb2 = supplyKey bwb1 key in
                      if hashOnly then
                        if acc_IsEmptyRoot v \<and> acc_IsEmptyCodeHash v
                        then Inr (accountLeafHash bwb2 (length key), rs2)
                        else Inr (contractLeafHash bwb2 (length key), rs2)
                      else
                        if acc_IsEmptyRoot v \<and> acc_IsEmptyCodeHash v
                        then Inr (accountLeaf bwb2 (length key), rs2)
                        else Inr (contractLeaf bwb2 (length key), rs2)
                  | _ \<Rightarrow>
                      if hashOnly then Inr (extensionHash bwb1 key, rs2)
                      else Inr (extension bwb1 key, rs2)))"
| "makeBlockWitness env (DuoNode msk child1 child2) hex force (bwb, rs) =
     (case HashOnly env rs hex of (hashOnly, rs1) \<Rightarrow>
        if hashOnly then
          Inr (hash (supplyHash bwb (hr_hash env (DuoNode msk child1 child2) force)) 1, rs1)
        else
          case childrenIdx msk of (i1, i2) \<Rightarrow>
            (case makeBlockWitness env child1 (hex @ [i1]) False (bwb, rs1) of
               Inl err \<Rightarrow> Inl err
             | Inr s1 \<Rightarrow>
                 (case makeBlockWitness env child2 (hex @ [i2]) False s1 of
                    Inl err \<Rightarrow> Inl err
                  | Inr (bwb2, rs2) \<Rightarrow>
                      if hashOnly then Inr (branchHash bwb2 msk, rs2)
                      else Inr (branch bwb2 msk, rs2))))"
| "makeBlockWitness env (FullNode children) hex force (bwb, rs) =
     (case HashOnly env rs hex of (hashOnly, rs1) \<Rightarrow>
        if hashOnly then
          Inr (hash (supplyHash bwb (hr_hash env (FullNode children) (length hex = 0))) 1, rs1)
        else
          case fullNode_children env children 0 hex 0 (bwb, rs1) of
            Inl err \<Rightarrow> Inl err
          | Inr (bitset, bwb2, rs2) \<Rightarrow>
              if hashOnly then Inr (branchHash bwb2 bitset, rs2)
              else Inr (branch bwb2 bitset, rs2))"
| "makeBlockWitness env (AccountNode n storage) hex force (bwb, rs) =
     (case HashOnly env rs hex of (hashOnly, rs1) \<Rightarrow>
        case (if \<not> acc_IsEmptyRoot n \<or> \<not> acc_IsEmptyCodeHash n then
                if hashOnly then
                  Inr (hash (supplyHash (supplyHash bwb (acc_Root n)) (acc_CodeHash n)) 2, rs1)
                else
                  (case makeBlockWitness env storage hex True (bwb, rs1) of
                     Inl err \<Rightarrow> Inl err
                   | Inr (bwb1, rs2) \<Rightarrow>
                       Inr (code (supplyCode bwb1 (codeFromHash env (acc_CodeHash n))), rs2))
              else Inr (bwb, rs1)) of
          Inl err \<Rightarrow> Inl err
        | Inr (bwb3, rs3) \<Rightarrow>
            Inr (supplyBigInt (supplyNumber bwb3 (acc_Nonce n)) (acc_Balance n), rs3))"
| "makeBlockWitness env (HashNode h) hex force (bwb, rs) = Inl (Panic ''trie.hashNode'')"
| "fullNode_children env [] i hex bitset s = Inr (bitset, s)"
| "fullNode_children env (child # children) i hex bitset s =
     (if child \<noteq> NilNode then
        case makeBlockWitness env child (hex @ [of_nat i]) False s of
          Inl err \<Rightarrow> Inl err
        | Inr s1 \<Rightarrow> fullNode_children env children (Suc i) hex (bitset OR push_bit i 1) s1
      else fullNode_children env children (Suc i) hex bitset s)"

definition MakeBlockWitness ::
  "'rs witness_env \<Rightarrow> BlockWitnessBuilder \<Rightarrow> Trie \<Rightarrow> 'rs
     \<Rightarrow> error + (BlockWitnessBuilder \<times> 'rs)" where
  "MakeBlockWitness env bwb t rs = makeBlockWitness env (root t) [] True (bwb, rs)"

text \<open>\<open>WriteTo\<close> writes to an \<open>io.Writer\<close>, here any state \<open>w\<close> with a \<open>Write\<close> that
  may fail. \<open>bytes.Buffer.WriteTo\<close> calls \<open>Write\<close> once with the buffer's content when
  there is any, and leaves the buffer empty.\<close>

definition Buffer_WriteTo ::
  "('w \<Rightarrow> byte list \<Rightarrow> error + 'w) \<Rightarrow> 'w \<Rightarrow> byte list \<Rightarrow> error + ('w \<times> byte list)" where
  "Buffer_WriteTo write w buf =
     (if buf = [] then Inr (w, [])
      else case write w buf of Inl err \<Rightarrow> Inl err | Inr w1 \<Rightarrow> Inr (w1, []))"

definition WriteTo ::
  "('w \<Rightarrow> byte list \<Rightarrow> error + 'w) \<Rightarrow> 'w \<Rightarrow> BlockWitnessBuilder
     \<Rightarrow> error + ('w \<times> BlockWitnessBuilder)" where
  "WriteTo write w bwb =
     (let lens = [(KeysTape, length (Keys bwb)), (ValuesTape, length (Values bwb)),
                  (HashesTape, length (Hashes bwb)), (CodesTape, length (Codes bwb)),
                  (StructureTape, length (Structure bwb))]
      in bindE (write w (cbor_map_canonical lens)) (\<lambda>w0.
         bindE (Buffer_WriteTo write w0 (Keys bwb)) (\<lambda>(w1, k).
         bindE (Buffer_WriteTo write w1 (Values bwb)) (\<lambda>(w2, v).
         bindE (Buffer_WriteTo write w2 (Hashes bwb)) (\<lambda>(w3, h).
         bindE (Buffer_WriteTo write w3 (Codes bwb)) (\<lambda>(w4, c).
         bindE (Buffer_WriteTo write w4 (Structure bwb)) (\<lambda>(w5, s).
           Inr (w5, \<lparr>Keys = k, Values = v, Hashes = h, Codes = c, Structure = s\<rparr>))))))))"

text \<open>A writer into memory, as a \<open>bytes.Buffer\<close> is: it appends and never fails.\<close>

definition buffer_Write :: "byte list \<Rightarrow> byte list \<Rightarrow> error + byte list" where
  "buffer_Write w p = Inr (w @ p)"

text \<open>\<open>BlockWitnessToTrie\<close> decodes the header with the library's decoder, given here as
  \<open>decode_lens\<close>, and returns. The slicing of the five tapes stands in a comment of the
  source; nothing after the header is read. The three results are the trie, the code
  map and the error, \<open>None\<close> being nil.\<close>

definition BlockWitnessToTrie ::
  "(byte list \<Rightarrow> error + (string \<rightharpoonup> int)) \<Rightarrow> byte list
     \<Rightarrow> Trie option \<times> (byte list \<rightharpoonup> byte list) option \<times> error option" where
  "BlockWitnessToTrie decode_lens bw =
     (case decode_lens bw of
        Inl err \<Rightarrow> (None, None, Some err)
      | Inr lens \<Rightarrow> (None, None, None))"

text \<open>Modelled from the spec: the resolve set of section 4.D, as the list of its hex
  keys. \<open>hash_only(hex)\<close> is true iff no stored key has \<open>hex\<close> as a prefix; the cursor
  of the implementation is an optimisation and the set is returned unchanged.\<close>

definition rs_HashOnly :: "byte list list \<Rightarrow> byte list \<Rightarrow> bool \<times> byte list list" where
  "rs_HashOnly hexes prefix =
     (\<not> list_ex (\<lambda>h. take (length prefix) h = prefix) hexes, hexes)"

text \<open>Modelled from the spec: the hash of a trie whose root is nil is the empty-root
  constant (section 4.E, "Empty input"); any other root is hashed by the hasher with
  \<open>force\<close> set.\<close>

definition Trie_Hash :: "(node \<Rightarrow> bool \<Rightarrow> byte list) \<Rightarrow> Trie \<Rightarrow> byte list" where
  "Trie_Hash h t = (if root t = NilNode then emptyRoot else h (root t) True)"

text \<open>Keccak-256 is outside the sources. Where an instance needs a hasher, this one
  stands in: it answers with the same 32 bytes for every node.\<close>

definition sample_hash :: "node \<Rightarrow> bool \<Rightarrow> byte list" where
  "sample_hash n force = replicate 32 0xAB"

definition sample_env :: "byte list list witness_env" where
  "sample_env = \<lparr>HashOnly = rs_HashOnly, hr_hash = sample_hash, codeFromHash = (\<lambda>h. None)\<rparr>"

section \<open>The streaming resolver (trie/resolver.go)\<close>

subsection \<open>Keys in nibble form\<close>

text \<open>Modelled from the spec: the nibble helpers are outside the given sources.
  \<open>keybytesToHex\<close> gives the nibbles of a key, high nibble first, with the terminator
  16 of a leaf key appended (sections 3 and 4.A); \<open>hexToCompact\<close> packs a nibble string
  behind a flag byte holding the terminator flag in bit 5, the odd-length flag in bit 4
  and, for an odd length, the first nibble; \<open>compactToHex\<close> is its inverse;
  \<open>prefixLen\<close> is the length of the common prefix.\<close>

definition keybytesToHex :: "byte list \<Rightarrow> byte list" where
  "keybytesToHex str = concat (map (\<lambda>b. [drop_bit 4 b, b AND 15]) str) @ [16]"

definition hasTerm :: "byte list \<Rightarrow> bool" where
  "hasTerm s = (s \<noteq> [] \<and> last s = 16)"

fun decodeNibbles :: "byte list \<Rightarrow> byte list" where
  "decodeNibbles (a # b # rest) = (push_bit 4 a OR b) # decodeNibbles rest"
| "decodeNibbles rest = []"

definition hexToCompact :: "byte list \<Rightarrow> byte list" where
  "hexToCompact hex =
     (let terminator = (if hasTerm hex then 1 else 0 :: byte);
          hex1 = (if hasTerm hex then butlast hex else hex)
      in if odd (length hex1)
         then (push_bit 5 terminator OR 16 OR hd hex1) # decodeNibbles (tl hex1)
         else push_bit 5 terminator # decodeNibbles hex1)"

definition compactToHex :: "byte list \<Rightarrow> byte list" where
  "compactToHex compact =
     (let base = keybytesToHex compact;
          base1 = (if hd base < 2 then butlast base else base);
          chop = 2 - unat (hd base1 AND 1)
      in drop chop base1)"

definition prefixLen :: "byte list \<Rightarrow> byte list \<Rightarrow> nat" where
  "prefixLen a b = length (takeWhile (\<lambda>(x, y). x = y) (zip a b))"

text \<open>\<open>bytes.Compare\<close>: the lexicographic order of byte strings, as -1, 0 or 1.\<close>

definition bytes_Compare :: "byte list \<Rightarrow> byte list \<Rightarrow> int" where
  "bytes_Compare a b = (if a = b then 0 else if a < b then - 1 else 1)"

subsection \<open>The state of the resolver\<close>

text \<open>A \<open>ResolveRequest\<close> is reached through a pointer from the resolver; the trie
  \<open>req.t\<close> and the parent node \<open>req.resolveParent\<close> are objects the request points
  to. They are kept as the cells \<open>t_root\<close> (the field \<open>root\<close> of \<open>req.t\<close>) and
  \<open>resolveParent\<close> (the parent node, \<open>NilNode\<close> for a nil pointer) of the request's
  record: a write through either pointer is an update of the cell. \<open>resolveHash\<close> is a
  \<open>hashNode\<close> that may be nil.\<close>

record ResolveRequest =
  contract :: "byte list"
  resolveHex :: "byte list"
  resolvePos :: nat
  extResolvePos :: nat
  resolveHash :: "byte list option"
  resolved :: node
  t_root :: node
  resolveParent :: node

record shortNode =
  Key :: "byte list"
  Val :: node

record fullNode =
  Children :: "node list"

definition Levels :: nat where
  "Levels = 104"

record TrieResolver =
  accounts :: bool
  hashes :: bool
  requests :: "ResolveRequest list"
  resolveHexes :: "byte list list"
  rhIndexLte :: int
  rhIndexGt :: nat
  reqIndices :: "nat list"
  tr_key :: "byte list"
  tr_value :: "byte list"
  key_set :: bool
  nodeStack :: "shortNode list"
  vertical :: "fullNode list"
  fillCount :: "nat list"
  startLevel :: nat
  keyIdx :: nat
  historical :: bool
  blockNr :: "64 word"

definition NewResolver :: "bool \<Rightarrow> bool \<Rightarrow> 64 word \<Rightarrow> TrieResolver" where
  "NewResolver hs acs nr =
     \<lparr>accounts = acs, hashes = hs, requests = [], resolveHexes = [], rhIndexLte = - 1,
      rhIndexGt = 0, reqIndices = [], tr_key = [], tr_value = [], key_set = False,
      nodeStack = replicate (Levels + 1) \<lparr>Key = [], Val = NilNode\<rparr>,
      vertical = replicate (Levels + 1) \<lparr>Children = replicate 17 NilNode\<rparr>,
      fillCount = replicate (Levels + 1) 0, startLevel = 0, keyIdx = 0, historical = False,
      blockNr = nr\<rparr>"

text \<open>Modelled from the spec: the structural copies of section 4.B. \<open>copy\<close> of a
  \<open>shortNode\<close> or \<open>fullNode\<close> is the node with the same fields; \<open>duoCopy\<close> of a
  \<open>fullNode\<close> is the \<open>duoNode\<close> of its first two children that are not nil, with the
  mask of their two indices.\<close>

definition short_copy :: "shortNode \<Rightarrow> node" where
  "short_copy n = ShortNode (Key n) (Val n)"

definition full_copy :: "fullNode \<Rightarrow> node" where
  "full_copy n = FullNode (Children n)"

definition full_duoCopy :: "fullNode \<Rightarrow> node" where
  "full_duoCopy n =
     (case filter (\<lambda>i. Children n ! i \<noteq> NilNode) [0..<length (Children n)] of
        [] \<Rightarrow> DuoNode 0 NilNode NilNode
      | [i1] \<Rightarrow> DuoNode (push_bit i1 1) (Children n ! i1) NilNode
      | i1 # i2 # _ \<Rightarrow>
          DuoNode (push_bit i1 1 OR push_bit i2 1) (Children n ! i1) (Children n ! i2))"

subsection \<open>\<open>finishPreviousKey\<close>\<close>

text \<open>The hasher \<open>tr.h.hash(n, force, buf)\<close> is outside the sources: \<open>h\<close> gives the
  length it returns and the 32 bytes it leaves in the buffer.\<close>

type_synonym hasher = "node \<Rightarrow> bool \<Rightarrow> nat \<times> byte list"

definition set_child :: "fullNode \<Rightarrow> byte \<Rightarrow> node \<Rightarrow> fullNode" where
  "set_child n i c = n\<lparr>Children := (Children n)[unat i := c]\<rparr>"

text \<open>The block that empties level \<open>l\<close>: the short node, the fill count and the 17
  children of the full node of that level.\<close>

definition clear_level :: "TrieResolver \<Rightarrow> nat \<Rightarrow> TrieResolver" where
  "clear_level tr l =
     tr\<lparr>nodeStack := (nodeStack tr)[l := \<lparr>Key = [], Val = NilNode\<rparr>],
        fillCount := (fillCount tr)[l := 0],
        vertical := (vertical tr)[l := \<lparr>Children = replicate 17 NilNode\<rparr>]\<rparr>"

text \<open>The loop that moves \<open>rhIndexGt\<close> and \<open>rhIndexLte\<close> past the resolve keys that
  are not greater than the current key.\<close>

function rh_adjust :: "byte list \<Rightarrow> byte list list \<Rightarrow> nat \<Rightarrow> int \<Rightarrow> int \<Rightarrow> nat \<times> int" where
  "rh_adjust hex rhs gt lte resComp =
     (if gt < length rhs \<and> resComp \<noteq> - 1 then
        rh_adjust hex rhs (gt + 1) (lte + 1)
          (if gt + 1 < length rhs then bytes_Compare hex (rhs ! (gt + 1)) else resComp)
      else (gt, lte))"
  by pat_completeness auto
termination
  by (relation "measure (\<lambda>(hex, rhs, gt, lte, resComp). length rhs - gt)") auto

declare rh_adjust.simps [simp del]

text \<open>The body of the loop \<open>for level := startLevel; level >= stopLevel; level--\<close>,
  in its blocks. \<open>promoteShort\<close> is the branch \<open>fillCount[level+1] == 1\<close>: the short
  node of the level below is copied into the full node of this level and, when this
  level is still empty, promoted with the nibble put in front of its key.\<close>

definition promoteShort :: "byte \<Rightarrow> nat \<Rightarrow> TrieResolver \<Rightarrow> TrieResolver" where
  "promoteShort keynibble level tr =
     (let short = nodeStack tr ! (level + 1);
          tr1 = tr\<lparr>vertical := (vertical tr)
                     [level := set_child (vertical tr ! level) keynibble (short_copy short)]\<rparr>;
          tr2 = (if fillCount tr1 ! level = 0
                 then tr1\<lparr>nodeStack := (nodeStack tr1)
                            [level := \<lparr>Key = hexToCompact (keynibble # compactToHex (Key short)),
                                       Val = Val short\<rparr>]\<rparr>
                 else tr1)
      in tr2\<lparr>fillCount := (fillCount tr2)[level := fillCount tr2 ! level + 1]\<rparr>)"

text \<open>\<open>storeBranch\<close> is what the other branch does with the node \<open>c\<close> it has chosen
  (the copy of the full node, or the reference to its hash): \<open>c\<close> goes into the slot
  \<open>keynibble\<close> of the full node of this level and, when this level is still empty,
  into the short node of this level under the one-nibble key.\<close>

definition storeBranch :: "node \<Rightarrow> byte \<Rightarrow> nat \<Rightarrow> TrieResolver \<Rightarrow> TrieResolver" where
  "storeBranch c keynibble level tr =
     (let tr1 = (if fillCount tr ! level = 0
                 then tr\<lparr>nodeStack := (nodeStack tr)
                           [level := (nodeStack tr ! level)\<lparr>Key := hexToCompact [keynibble]\<rparr>]\<rparr>
                 else tr);
          tr2 = tr1\<lparr>vertical := (vertical tr1)
                     [level := set_child (vertical tr1 ! level) keynibble c]\<rparr>;
          tr3 = (if fillCount tr2 ! level = 0
                 then tr2\<lparr>nodeStack := (nodeStack tr2)
                            [level := (nodeStack tr2 ! level)\<lparr>Val := c\<rparr>]\<rparr>
                 else tr2)
      in tr3\<lparr>fillCount := (fillCount tr3)[level := fillCount tr3 ! level + 1]\<rparr>)"

text \<open>Both branches end with \<open>if level >= req.extResolvePos\<close>, which empties the level
  below.\<close>

definition afterLevel :: "nat \<Rightarrow> nat \<Rightarrow> TrieResolver \<Rightarrow> TrieResolver" where
  "afterLevel ext level tr = (if level \<ge> ext then clear_level tr (level + 1) else tr)"

text \<open>\<open>hex\<close> is the current key in nibbles, \<open>rhPrefixLen\<close> the longest prefix it
  shares with a neighbouring resolve key, \<open>ext\<close> the request's \<open>extResolvePos\<close>. An
  index outside an array and the \<open>panic("hashNode expected")\<close> are \<open>Inl\<close>.\<close>

definition finishLevel ::
  "hasher \<Rightarrow> byte list \<Rightarrow> nat \<Rightarrow> nat \<Rightarrow> nat \<Rightarrow> TrieResolver \<Rightarrow> error + TrieResolver" where
  "finishLevel h hex rhPrefixLen ext level tr =
     (if length hex \<le> level \<or> Levels < level + 1 \<or> 17 \<le> unat (hex ! level)
      then Inl PanicIndexOutOfRange
      else
        let keynibble = hex ! level;
            onResolvingPath = (level < rhPrefixLen)
        in
        if fillCount tr ! (level + 1) = 1
        then Inr (afterLevel ext level (promoteShort keynibble level tr))
        else
          let full = vertical tr ! (level + 1) in
          case h (full_copy full) False of (hashLen, storeHashTo) \<Rightarrow>
            if hashLen < 32 then Inl (Panic ''hashNode expected'')
            else
              let c = (if onResolvingPath \<or> (hashes tr \<and> level = 5)
                       then (if fillCount tr ! (level + 1) = 2 then full_duoCopy full
                             else full_copy full)
                       else HashNode storeHashTo)
              in Inr (afterLevel ext level (storeBranch c keynibble level tr)))"

text \<open>The loop itself, from \<open>level\<close> down to \<open>stopLevel\<close>.\<close>

fun finishLevels ::
  "hasher \<Rightarrow> byte list \<Rightarrow> nat \<Rightarrow> nat \<Rightarrow> nat \<Rightarrow> nat \<Rightarrow> TrieResolver \<Rightarrow> error + TrieResolver" where
  "finishLevels h hex rhPrefixLen ext stopLevel 0 tr =
     (if 0 < stopLevel then Inr tr else finishLevel h hex rhPrefixLen ext 0 tr)"
| "finishLevels h hex rhPrefixLen ext stopLevel (Suc level) tr =
     (if Suc level < stopLevel then Inr tr
      else case finishLevel h hex rhPrefixLen ext (Suc level) tr of
             Inl err \<Rightarrow> Inl err
           | Inr tr1 \<Rightarrow> finishLevels h hex rhPrefixLen ext stopLevel level tr1)"

text \<open>The part of \<open>finishPreviousKey\<close> before the loop, in its blocks. \<open>k\<close> is
  \<open>None\<close> for nil. \<open>stopLevelFor\<close>: twice the length of the prefix that the next key
  shares with the current one, plus one when the high nibbles of the first differing
  bytes agree.\<close>

definition stopLevelFor :: "byte list option \<Rightarrow> byte list \<Rightarrow> error + nat" where
  "stopLevelFor k cur =
     (let pLen = prefixLen (case k of None \<Rightarrow> [] | Some kb \<Rightarrow> kb) cur in
      case k of
        None \<Rightarrow> Inr (2 * pLen)
      | Some kb \<Rightarrow>
          if length kb \<le> pLen \<or> length cur \<le> pLen then Inl PanicIndexOutOfRange
          else if (kb ! pLen XOR cur ! pLen) AND 0xF0 = 0 then Inr (2 * pLen + 1)
          else Inr (2 * pLen))"

text \<open>\<open>tr.requests[tr.reqIndices[tr.keyIdx]]\<close>, as the index of the request.\<close>

definition currentRequest :: "TrieResolver \<Rightarrow> error + nat" where
  "currentRequest tr =
     (if length (reqIndices tr) \<le> keyIdx tr
         \<or> length (requests tr) \<le> reqIndices tr ! keyIdx tr
      then Inl PanicIndexOutOfRange
      else Inr (reqIndices tr ! keyIdx tr))"

text \<open>The current key and value become a leaf at level \<open>l = startLevel + 1\<close>.
  \<open>tr.value\<close> is nil or not empty (\<open>Walker\<close> stores a copy of a value that is not
  empty, or an RLP encoding): the empty \<open>tr_value\<close> is the nil slice.\<close>

definition placeValue :: "TrieResolver \<Rightarrow> nat \<Rightarrow> byte list \<Rightarrow> TrieResolver" where
  "placeValue tr l hex =
     tr\<lparr>nodeStack := (nodeStack tr)
          [l := \<lparr>Key = hexToCompact (drop l hex),
                 Val = (if tr_value tr = [] then NilValueNode else ValueNode (tr_value tr))\<rparr>],
        fillCount := (fillCount tr)[l := 1]\<rparr>"

definition adjustRhIndices :: "TrieResolver \<Rightarrow> byte list \<Rightarrow> TrieResolver" where
  "adjustRhIndices tr hex =
     (if rhIndexGt tr < length (resolveHexes tr)
      then case rh_adjust hex (resolveHexes tr) (rhIndexGt tr) (rhIndexLte tr)
                  (bytes_Compare hex (resolveHexes tr ! rhIndexGt tr)) of
             (gt, lte) \<Rightarrow> tr\<lparr>rhIndexGt := gt, rhIndexLte := lte\<rparr>
      else tr)"

definition rhPrefixLenOf :: "TrieResolver \<Rightarrow> byte list \<Rightarrow> error + nat" where
  "rhPrefixLenOf tr hex =
     (if 0 \<le> rhIndexLte tr \<and> length (resolveHexes tr) \<le> nat (rhIndexLte tr)
      then Inl PanicIndexOutOfRange
      else
        let rhPrefixLen0 =
              (if 0 \<le> rhIndexLte tr
               then prefixLen hex (resolveHexes tr ! nat (rhIndexLte tr)) else 0)
        in Inr (if rhIndexGt tr < length (resolveHexes tr)
                then max rhPrefixLen0 (prefixLen hex (resolveHexes tr ! rhIndexGt tr))
                else rhPrefixLen0))"

text \<open>\<open>finishPreviousKey\<close> up to the end of the loop and the assignment
  \<open>tr.startLevel = stopLevel\<close>: it returns the resolver and the index of the current
  request.\<close>

definition finishKeyLevels ::
  "hasher \<Rightarrow> TrieResolver \<Rightarrow> byte list option \<Rightarrow> error + (TrieResolver \<times> nat)" where
  "finishKeyLevels h tr k =
     bindE (stopLevelFor k (tr_key tr)) (\<lambda>stopLevel.
     bindE (currentRequest tr) (\<lambda>ri.
       let req = requests tr ! ri;
           startLevel1 = max (max (startLevel tr) (extResolvePos req)) stopLevel;
           hex = keybytesToHex (tr_key tr)
       in
       if length hex < startLevel1 + 1 \<or> Levels < startLevel1 + 1
       then Inl PanicIndexOutOfRange
       else
         let tr2 = adjustRhIndices (placeValue tr (startLevel1 + 1) hex) hex in
         bindE (rhPrefixLenOf tr2 hex) (\<lambda>rhPrefixLen.
         bindE (finishLevels h hex rhPrefixLen (extResolvePos req) stopLevel startLevel1 tr2)
           (\<lambda>tr3. Inr (tr3\<lparr>startLevel := stopLevel\<rparr>, ri)))))"

text \<open>The root the resolver built for a request, nil when the level is empty.\<close>

definition builtRoot :: "TrieResolver \<Rightarrow> nat \<Rightarrow> node" where
  "builtRoot tr pos =
     (if fillCount tr ! pos = 1 then short_copy (nodeStack tr ! pos)
      else if fillCount tr ! pos = 2 then full_duoCopy (vertical tr ! pos)
      else if fillCount tr ! pos > 2 then full_copy (vertical tr ! pos)
      else NilNode)"

definition is_hashNode :: "node \<Rightarrow> bool" where
  "is_hashNode n = (case n of HashNode x \<Rightarrow> True | _ \<Rightarrow> False)"

text \<open>The splice of the resolved root into the slot of the trie it belongs to.\<close>

definition splice :: "ResolveRequest \<Rightarrow> node \<Rightarrow> error + ResolveRequest" where
  "splice req rt =
     (case resolveParent req of
        NilNode \<Rightarrow> Inr (if is_hashNode (t_root req) then req\<lparr>t_root := rt\<rparr> else req)
      | ShortNode pk pv \<Rightarrow>
          Inr (if is_hashNode pv then req\<lparr>resolveParent := ShortNode pk rt\<rparr> else req)
      | DuoNode msk child1 child2 \<Rightarrow>
          if resolvePos req = 0 \<or> length (resolveHex req) < resolvePos req
          then Inl PanicIndexOutOfRange
          else
            (case childrenIdx msk of (i1, i2) \<Rightarrow>
               let nib = resolveHex req ! (resolvePos req - 1) in
               if nib = i1 then
                 Inr (if is_hashNode child1
                      then req\<lparr>resolveParent := DuoNode msk rt child2\<rparr> else req)
               else if nib = i2 then
                 Inr (if is_hashNode child2
                      then req\<lparr>resolveParent := DuoNode msk child1 rt\<rparr> else req)
               else Inr req)
      | FullNode cs \<Rightarrow>
          if resolvePos req = 0 \<or> length (resolveHex req) < resolvePos req
          then Inl PanicIndexOutOfRange
          else
            let idx = unat (resolveHex req ! (resolvePos req - 1)) in
            if length cs \<le> idx then Inl PanicIndexOutOfRange
            else Inr (if is_hashNode (cs ! idx)
                      then req\<lparr>resolveParent := FullNode (cs[idx := rt])\<rparr> else req)
      | _ \<Rightarrow> Inr req)"

text \<open>The block \<open>if k == nil\<close> at the end of \<open>finishPreviousKey\<close>, for the request at
  index \<open>ri\<close>. Its errors are returned, not panics: the resolver they are returned
  with is the second component. \<open>timestampSubTree\<close> writes node flags only.\<close>

definition finishRequest ::
  "hasher \<Rightarrow> TrieResolver \<Rightarrow> nat \<Rightarrow> error + (error option \<times> TrieResolver)" where
  "finishRequest h tr ri =
     (let req = requests tr ! ri in
      if Levels < extResolvePos req then Inl PanicIndexOutOfRange
      else
        let rt = builtRoot tr (extResolvePos req) in
        if rt = NilNode then Inr (Some ErrResolveNilRoot, tr)
        else
          case h rt (resolvePos req = 0) of (hashLen, gotHash) \<Rightarrow>
            if hashLen = 32 \<and> resolveHash req \<noteq> Some gotHash
            then Inr (Some (ErrWrongHash (contract req) (resolveHex req) (resolvePos req)
                              (resolveHash req) gotHash), tr)
            else if hashLen \<noteq> 32 \<and> resolveHash req \<noteq> None
            then Inr (Some (ErrWrongHashEmbedded (resolveHex req) (resolvePos req)
                              (resolveHash req)), tr)
            else
              let req1 = req\<lparr>resolved := rt\<rparr>;
                  tr1 = tr\<lparr>nodeStack := replicate (Levels + 1) \<lparr>Key = [], Val = NilNode\<rparr>,
                            vertical := replicate (Levels + 1) \<lparr>Children = replicate 17 NilNode\<rparr>,
                            fillCount := replicate (Levels + 1) 0\<rparr>
              in case splice req1 rt of
                   Inl err \<Rightarrow> Inl err
                 | Inr req2 \<Rightarrow> Inr (None, tr1\<lparr>requests := (requests tr1)[ri := req2]\<rparr>))"

definition finishPreviousKey ::
  "hasher \<Rightarrow> TrieResolver \<Rightarrow> byte list option \<Rightarrow> error + (error option \<times> TrieResolver)" where
  "finishPreviousKey h tr k =
     (case finishKeyLevels h tr k of
        Inl err \<Rightarrow> Inl err
      | Inr (tr1, ri) \<Rightarrow>
          if k = None then finishRequest h tr1 ri else Inr (None, tr1))"

subsection \<open>\<open>Walker\<close>\<close>

text \<open>The resolver's own \<open>Account\<close> and \<open>ExtAccount\<close> structs, and what
  \<open>rlp.EncodeToBytes\<close> and \<open>rlp.DecodeBytes\<close> do on them.\<close>

record trie_Account =
  t_Nonce :: "64 word"
  t_Balance :: "int option"
  t_Root :: "byte list"
  t_CodeHash :: "byte list option"

record trie_ExtAccount =
  te_Nonce :: "64 word"
  te_Balance :: "int option"

definition encode_trie_Account :: "trie_Account \<Rightarrow> rlp_error + byte list" where
  "encode_trie_Account a =
     bindE (rlp_bigint (t_Balance a)) (\<lambda>b.
       Inr (rlp_list (rlp_uint64 (t_Nonce a) @ b @ rlp_string (t_Root a)
                        @ rlp_bytes (t_CodeHash a))))"

definition decode_trie_ExtAccount :: "byte list \<Rightarrow> rlp_error + trie_ExtAccount" where
  "decode_trie_ExtAccount enc =
     bindE (struct_open enc) (\<lambda>(c0, rest).
     bindE (struct_field ''trie.ExtAccount'' decode_uint64 c0) (\<lambda>(n, c1).
     bindE (struct_field ''trie.ExtAccount'' decode_bigint c1) (\<lambda>(b, c2).
       struct_close ''trie.ExtAccount'' c2 rest
         \<lparr>te_Nonce = n, te_Balance = Some b\<rparr>)))"

text \<open>\<open>Walker(keyIdx, k, v)\<close> returns \<open>(bool, error)\<close> beside the updated resolver;
  \<open>Inl\<close> is a panic. \<open>var data Account\<close> starts from Go's zero value. A Go slice can
  be resliced up to its capacity: \<open>kcap\<close> holds the bytes of the backing array of
  \<open>k\<close> between \<open>len(k)\<close> and \<open>cap(k)\<close>, and the slice \<open>k[:32]\<close> (or \<open>k[:52]\<close>)
  panics only when the capacity is smaller. \<open>emptyRoot\<close> of the \<open>trie\<close> package is
  declared outside the given sources; it is the empty-root constant of section 6.\<close>

definition Walker ::
  "hasher \<Rightarrow> TrieResolver \<Rightarrow> nat \<Rightarrow> byte list \<Rightarrow> byte list \<Rightarrow> byte list
     \<Rightarrow> error + ((bool \<times> error option) \<times> TrieResolver)" where
  "Walker h tr idx k kcap v =
     bindE
       (if idx \<noteq> keyIdx tr then
          if key_set tr then
            (case finishPreviousKey h tr None of
               Inl p \<Rightarrow> Inl p
             | Inr (Some err, tr1) \<Rightarrow> Inr (Some err, tr1)
             | Inr (None, tr1) \<Rightarrow> Inr (None, tr1\<lparr>key_set := False, keyIdx := idx\<rparr>))
          else Inr (None, tr\<lparr>keyIdx := idx\<rparr>)
        else Inr (None, tr))
       (\<lambda>(e1, tr1).
          case e1 of
            Some err \<Rightarrow> Inr ((False, Some err), tr1)
          | None \<Rightarrow>
              if length v > 0 then
                bindE (if key_set tr1 then finishPreviousKey h tr1 (Some k) else Inr (None, tr1))
                  (\<lambda>(e2, tr2).
                     case e2 of
                       Some err \<Rightarrow> Inr ((False, Some err), tr2)
                     | None \<Rightarrow>
                         let n = (if accounts tr2 then 32 else 52) in
                         if length (k @ kcap) < n then Inl PanicIndexOutOfRange
                         else
                           let tr3 = tr2\<lparr>tr_key := take n (k @ kcap)\<rparr> in
                           if accounts tr3 then
                             if length v = 1 then
                               (case encode_trie_Account
                                       \<lparr>t_Nonce = 0, t_Balance = Some 0, t_Root = emptyRoot,
                                        t_CodeHash = Some emptyCodeHash\<rparr> of
                                  Inl err \<Rightarrow>
                                    Inr ((False, Some (RlpError err)), tr3\<lparr>tr_value := []\<rparr>)
                                | Inr b \<Rightarrow>
                                    Inr ((True, None), tr3\<lparr>tr_value := b, key_set := True\<rparr>))
                             else if length v < 60 then
                               (case decode_trie_ExtAccount v of
                                  Inl err \<Rightarrow> Inr ((False, Some (RlpError err)), tr3)
                                | Inr extData \<Rightarrow>
                                    (case encode_trie_Account
                                            \<lparr>t_Nonce = te_Nonce extData,
                                             t_Balance = te_Balance extData,
                                             t_Root = emptyRoot,
                                             t_CodeHash = Some emptyCodeHash\<rparr> of
                                       Inl err \<Rightarrow>
                                         Inr ((False, Some (RlpError err)),
                                              tr3\<lparr>tr_value := []\<rparr>)
                                     | Inr b \<Rightarrow>
                                         Inr ((True, None),
                                              tr3\<lparr>tr_value := b, key_set := True\<rparr>)))
                             else Inr ((True, None), tr3\<lparr>tr_value := v, key_set := True\<rparr>)
                           else Inr ((True, None), tr3\<lparr>tr_value := v, key_set := True\<rparr>))
              else Inr ((True, None), tr1))"

text \<open>A node that is kept with its structure: a \<open>duoNode\<close> or a \<open>fullNode\<close>.\<close>

definition is_branch :: "node \<Rightarrow> bool" where
  "is_branch n = (case n of DuoNode m a b \<Rightarrow> True | FullNode cs \<Rightarrow> True | _ \<Rightarrow> False)"

text \<open>The stand-in hasher for instances of the resolver: 32 bytes, the same for every
  node.\<close>

definition sample_hasher :: hasher where
  "sample_hasher n force = (32, replicate 32 0xAB)"

text \<open>Resolver states for the instances. \<open>sample_resolver\<close>: one request for the whole
  trie (position 0) that expects the hash 00..00, and one key with its value already
  walked. \<open>sample_sibling_resolver\<close>: the same with two resolve keys, the key 00..00
  and the key itself, none of them passed yet, and a sibling (a hash reference under
  nibble 0) left at level 5 by an earlier key.\<close>

definition sample_request :: ResolveRequest where
  "sample_request =
     \<lparr>contract = [], resolveHex = [], resolvePos = 0, extResolvePos = 0,
      resolveHash = Some (replicate 32 0), resolved = NilNode,
      t_root = HashNode (replicate 32 0), resolveParent = NilNode\<rparr>"

definition sample_resolver :: TrieResolver where
  "sample_resolver =
     (NewResolver True True 0)
       \<lparr>requests := [sample_request], reqIndices := [0], key_set := True,
        tr_key := replicate 32 0x12, tr_value := [1, 2, 3]\<rparr>"

definition sample_sibling_resolver :: TrieResolver where
  "sample_sibling_resolver =
     sample_resolver
       \<lparr>resolveHexes := [keybytesToHex (replicate 32 0), keybytesToHex (replicate 32 0x12)],
        startLevel := 5,
        fillCount := (replicate (Levels + 1) 0)[5 := 1],
        nodeStack := (replicate (Levels + 1) \<lparr>Key = [], Val = NilNode\<rparr>)
          [5 := \<lparr>Key = [0x30], Val = HashNode (replicate 32 0x77)\<rparr>],
        vertical := (replicate (Levels + 1) \<lparr>Children = replicate 17 NilNode\<rparr>)
          [5 := \<lparr>Children = (replicate 17 NilNode)[0 := HashNode (replicate 32 0x77)]\<rparr>]\<rparr>"

text \<open>What the claims about the resolver's levels take for granted. \<open>resolver_wf\<close>:
  \<open>nodeStack\<close>, \<open>vertical\<close> and \<open>fillCount\<close> are Go arrays of \<open>Levels + 1\<close>
  elements and \<open>Children\<close> is an array of 17. \<open>rh_positioned\<close>: what
  \<open>PrepareResolveParams\<close> and the ascending order of the walk establish before a key
  is finished: the resolve keys are sorted, \<open>rhIndexLte\<close> is one behind \<open>rhIndexGt\<close>,
  and the resolve keys before \<open>rhIndexGt\<close> are not greater than the current key.\<close>

definition resolver_wf :: "TrieResolver \<Rightarrow> bool" where
  "resolver_wf tr =
     (length (nodeStack tr) = Levels + 1 \<and> length (vertical tr) = Levels + 1 \<and>
      length (fillCount tr) = Levels + 1 \<and>
      list_all (\<lambda>f. length (Children f) = 17) (vertical tr))"

definition rh_positioned :: "TrieResolver \<Rightarrow> byte list \<Rightarrow> bool" where
  "rh_positioned tr hex =
     (sorted (resolveHexes tr) \<and> rhIndexLte tr = int (rhIndexGt tr) - 1 \<and>
      rhIndexGt tr \<le> length (resolveHexes tr) \<and>
      list_all (\<lambda>r. r \<le> hex) (take (rhIndexGt tr) (resolveHexes tr)))"

text \<open>The prefix of the key \<open>hex\<close> that ends at \<open>level\<close> (its first \<open>level + 1\<close>
  nibbles) is on a resolving path: some resolve key begins with it.\<close>

definition onResolvingPath :: "byte list list \<Rightarrow> byte list \<Rightarrow> nat \<Rightarrow> bool" where
  "onResolvingPath rhs hex level = list_ex (\<lambda>r. level < prefixLen hex r) rhs"


section \<open>Basic facts\<close>

lemma bindE_Inl [simp]: "bindE (Inl e) f = Inl e"
  by (simp add: bindE_def)

lemma bindE_Inr [simp]: "bindE (Inr x) f = f x"
  by (simp add: bindE_def)

section \<open>The opcode values\<close>

text \<open>C6. The numeric values of the structure-tape opcodes are Leaf=0, LeafHash=1,
  Extension=2, ExtensionHash=3, Branch=4, BranchHash=5, Hash=6, Code=7, AccountLeaf=8,
  AccountLeafHash=9, ContractLeaf=10, ContractLeafHash=11, EmptyRoot=12.\<close>

theorem Instruction_values:
  "Instruction_value OpLeaf = 0 \<and> Instruction_value OpLeafHash = 1 \<and>
   Instruction_value OpExtension = 2 \<and> Instruction_value OpExtensionHash = 3 \<and>
   Instruction_value OpBranch = 4 \<and> Instruction_value OpBranchHash = 5 \<and>
   Instruction_value OpHash = 6 \<and> Instruction_value OpCode = 7 \<and>
   Instruction_value OpAccountLeaf = 8 \<and> Instruction_value OpAccountLeafHash = 9 \<and>
   Instruction_value OpContractLeaf = 10 \<and> Instruction_value OpContractLeafHash = 11 \<and>
   Instruction_value OpEmptyRoot = 12"
  by (simp add: Instruction_value_def Instruction_decls_def)

section \<open>RLP: decoding what was encoded\<close>


lemma from_be_Nil [simp]: "from_be [] = 0"
  by (simp add: from_be_def)


lemma be_bytes_0 [simp]: "be_bytes 0 = []"
  by (simp add: be_bytes.simps)





lemma unat_byte_of_nat: "n < 256 \<Longrightarrow> unat (of_nat n :: byte) = n"
  by (simp add: unat_of_nat)











lemma rlp_string_ne [simp]: "rlp_string bs \<noteq> []"
  by (auto simp: rlp_string_def)





lemma rlp_uint64_ne [simp]: "rlp_uint64 n \<noteq> []"
  by (simp add: rlp_uint64_def)



lemma length_rlp_list_short: "length p \<le> 55 \<Longrightarrow> length (rlp_list p) = Suc (length p)"
  by (simp add: rlp_list_def)







lemma liftR_Inr [simp]: "liftR (Inr x) = Inr x"
  by (simp add: liftR_def)

lemma liftR_Inl [simp]: "liftR (Inl e) = Inl (RlpError e)"
  by (simp add: liftR_def)

lemma length_emptyCodeHash [simp]: "length emptyCodeHash = 32"
  by (simp add: emptyCodeHash_def)

lemma length_emptyRoot [simp]: "length emptyRoot = 32"
  by (simp add: emptyRoot_def)







section \<open>The account codec\<close>

text \<open>C10, as the code has it. The package-level \<open>Decode\<close> returns \<open>(nil, nil)\<close> on the
  empty input. \<open>Account.Decode\<close> accepts every input of length 1, whatever the byte:
  it sets the receiver's balance to zero, its root to the empty root and its code hash
  to the empty code hash, and leaves the receiver's nonce (and storage size) as they
  were. On the fresh account that the package-level \<open>Decode\<close> allocates the result is
  therefore the empty account with nonce 0.\<close>

theorem Decode_empty_and_one_byte:
  "Decode [] = (None, None) \<and>
   Account_Decode a [b] =
     Inr (a\<lparr>Balance := Some 0, CodeHash := Some emptyCodeHash, Root := emptyRoot\<rparr>) \<and>
   Decode [b] =
     (Some \<lparr>Nonce = 0, Balance = Some 0, Root = emptyRoot, CodeHash = Some emptyCodeHash,
            StorageSize = None\<rparr>, None)"
  by (simp add: Decode_def Account_Decode_def accountSizeWithoutData_def setCodeHash_def
      new_Account_def)

text \<open>C10 as stated fails on a receiver that already carries a nonce: the one-byte case
  never assigns \<open>Nonce\<close>, so the result keeps nonce 7 instead of the claimed 0.\<close>

theorem Account_Decode_one_byte_keeps_nonce:
  "Account_Decode (new_Account\<lparr>Nonce := 7\<rparr>) [192] =
     Inr \<lparr>Nonce = 7, Balance = Some 0, Root = emptyRoot, CodeHash = Some emptyCodeHash,
          StorageSize = None\<rparr> \<and> (7 :: 64 word) \<noteq> 0"
  by (simp add: Account_Decode_def accountSizeWithoutData_def setCodeHash_def new_Account_def)




text \<open>Outside those accounts the round trip can stop with an error: a nil code hash
  beside a non-empty root is copied by \<open>fill\<close> into an empty, non-nil slice, which
  \<open>setDefaultCodeHash\<close> no longer recognises; the encoding is then shorter than 60
  bytes and is refused as an \<open>ExtAccount\<close>.\<close>

lemma Account_Encode_Decode_nil_code_hash:
  "bindE (Account_Encode \<lparr>Nonce = 3, Balance = Some 5, Root = replicate 32 1,
            CodeHash = None, StorageSize = None\<rparr> False) (Account_Decode new_Account) =
     Inl (RlpError (ErrTooManyElements ''accounts.ExtAccount''))"
  by code_simp

section \<open>The block witness builder\<close>

lemma sorted_tapes:
  "sort_key fst [(KeysTape, a), (ValuesTape, b), (HashesTape, c), (CodesTape, d), (StructureTape, e)]
     = [(CodesTape, d), (HashesTape, c), (KeysTape, a), (StructureTape, e), (ValuesTape, b)]"
  by (simp add: KeysTape_def ValuesTape_def HashesTape_def CodesTape_def StructureTape_def
      less_eq_char_def less_char_def)

lemma Buffer_WriteTo_buffer [simp]:
  "Buffer_WriteTo buffer_Write w buf = Inr (w @ buf, [])"
  by (simp add: Buffer_WriteTo_def buffer_Write_def)

lemma WriteTo_buffer:
  "WriteTo buffer_Write w bwb =
     Inr (w @ cbor_map_canonical
                [(KeysTape, length (Keys bwb)), (ValuesTape, length (Values bwb)),
                 (HashesTape, length (Hashes bwb)), (CodesTape, length (Codes bwb)),
                 (StructureTape, length (Structure bwb))]
            @ Keys bwb @ Values bwb @ Hashes bwb @ Codes bwb @ Structure bwb,
          NewBlockWitnessBuilder)"
  by (simp add: WriteTo_def Let_def buffer_Write_def NewBlockWitnessBuilder_def)

lemma header_layout:
  "cbor_map_canonical
     [(KeysTape, a), (ValuesTape, b), (HashesTape, c), (CodesTape, d), (StructureTape, e)] =
   [0xA5] @ cbor_text CodesTape @ cbor_uint d @ cbor_text HashesTape @ cbor_uint c
     @ cbor_text KeysTape @ cbor_uint a @ cbor_text StructureTape @ cbor_uint e
     @ cbor_text ValuesTape @ cbor_uint b"
  unfolding cbor_map_canonical_def sorted_tapes
  by (simp add: cbor_head_def)

text \<open>C5, as the code has it. \<open>WriteTo\<close> writes the header first, a single CBOR map (0xA5:
  a map of five pairs) from the five tape names to the lengths of the tapes, with the
  keys in ascending order of the strings (codes, hashes, keys, structure, values), as
  the codec's \<open>Canonical\<close> option writes them; and then the five tapes back to back in
  the order keys, values, hashes, codes, structure.\<close>

theorem WriteTo_header_then_tapes:
  "WriteTo buffer_Write w bwb =
     Inr (w @ cbor_map_canonical
                [(KeysTape, length (Keys bwb)), (ValuesTape, length (Values bwb)),
                 (HashesTape, length (Hashes bwb)), (CodesTape, length (Codes bwb)),
                 (StructureTape, length (Structure bwb))]
            @ Keys bwb @ Values bwb @ Hashes bwb @ Codes bwb @ Structure bwb,
          NewBlockWitnessBuilder) \<and>
   cbor_map_canonical
     [(KeysTape, length (Keys bwb)), (ValuesTape, length (Values bwb)),
      (HashesTape, length (Hashes bwb)), (CodesTape, length (Codes bwb)),
      (StructureTape, length (Structure bwb))] =
     [0xA5] @ cbor_text ''codes'' @ cbor_uint (length (Codes bwb))
       @ cbor_text ''hashes'' @ cbor_uint (length (Hashes bwb))
       @ cbor_text ''keys'' @ cbor_uint (length (Keys bwb))
       @ cbor_text ''structure'' @ cbor_uint (length (Structure bwb))
       @ cbor_text ''values'' @ cbor_uint (length (Values bwb))"
  using WriteTo_buffer [of w bwb]
    header_layout [of "length (Keys bwb)" "length (Values bwb)" "length (Hashes bwb)"
      "length (Codes bwb)" "length (Structure bwb)"]
  by (simp add: KeysTape_def ValuesTape_def HashesTape_def CodesTape_def StructureTape_def)

text \<open>C5 as stated fails: the header is not the canonical CBOR of RFC 7049, which puts
  the shorter key first (keys, codes, hashes, values, structure). For the empty builder
  \<open>WriteTo\<close> writes the 41 bytes of the map with the keys in the order of the strings,
  beginning 0xA5, 0x65, "codes"; the canonical map begins 0xA5, 0x64, "keys".\<close>

theorem WriteTo_header_not_rfc_canonical:
  "WriteTo buffer_Write [] NewBlockWitnessBuilder =
     Inr ([0xA5, 0x65, 0x63, 0x6F, 0x64, 0x65, 0x73, 0x00,
           0x66, 0x68, 0x61, 0x73, 0x68, 0x65, 0x73, 0x00,
           0x64, 0x6B, 0x65, 0x79, 0x73, 0x00,
           0x69, 0x73, 0x74, 0x72, 0x75, 0x63, 0x74, 0x75, 0x72, 0x65, 0x00,
           0x66, 0x76, 0x61, 0x6C, 0x75, 0x65, 0x73, 0x00], NewBlockWitnessBuilder) \<and>
   cbor_map_rfc7049
     [(KeysTape, 0), (ValuesTape, 0), (HashesTape, 0), (CodesTape, 0), (StructureTape, 0)] =
     [0xA5, 0x64, 0x6B, 0x65, 0x79, 0x73, 0x00,
      0x65, 0x63, 0x6F, 0x64, 0x65, 0x73, 0x00,
      0x66, 0x68, 0x61, 0x73, 0x68, 0x65, 0x73, 0x00,
      0x66, 0x76, 0x61, 0x6C, 0x75, 0x65, 0x73, 0x00,
      0x69, 0x73, 0x74, 0x72, 0x75, 0x63, 0x74, 0x75, 0x72, 0x65, 0x00] \<and>
   WriteTo buffer_Write [] NewBlockWitnessBuilder \<noteq>
     Inr (cbor_map_rfc7049
            [(KeysTape, 0), (ValuesTape, 0), (HashesTape, 0), (CodesTape, 0),
             (StructureTape, 0)], NewBlockWitnessBuilder)"
  by code_simp


lemma Structure_emit [simp]:
  "Structure (emit bwb opc operand) =
     Structure bwb @ cbor_uint (unat (Instruction_value opc)) @ operand"
  by (simp add: emit_def)



text \<open>C7, as the code has it. For the empty trie (a nil root) \<open>makeBlockWitness\<close>
  returns at once and appends nothing to any tape; the serialized witness is the header
  in which all five tape lengths are 0, and nothing after it. The structure byte
  \<open>OpEmptyRoot\<close> (12) is what the builder's method \<open>emptyRoot\<close> appends. The root hash
  of the empty trie is the empty-root constant.\<close>

theorem empty_trie_serialised:
  "MakeBlockWitness env NewBlockWitnessBuilder \<lparr>root = NilNode\<rparr> rs =
     Inr (NewBlockWitnessBuilder, rs) \<and>
   WriteTo buffer_Write [] NewBlockWitnessBuilder =
     Inr (cbor_map_canonical [(KeysTape, 0), (ValuesTape, 0), (HashesTape, 0), (CodesTape, 0),
                              (StructureTape, 0)], NewBlockWitnessBuilder) \<and>
   Structure (emptyRoot_op NewBlockWitnessBuilder) = [12] \<and>
   Trie_Hash h \<lparr>root = NilNode\<rparr> = emptyRoot"
  using WriteTo_buffer [of "[]" NewBlockWitnessBuilder]
  by (simp add: MakeBlockWitness_def Trie_Hash_def emptyRoot_op_def cbor_uint_def cbor_head_def
      Instruction_value_def Instruction_decls_def NewBlockWitnessBuilder_def)

text \<open>C7 as stated fails: for the empty trie the structure tape stays empty, so the 41
  bytes of the header are the whole witness and no byte 12 follows them.\<close>

theorem empty_trie_no_structure_byte:
  "MakeBlockWitness sample_env NewBlockWitnessBuilder \<lparr>root = NilNode\<rparr> [] =
     Inr (NewBlockWitnessBuilder, []) \<and>
   WriteTo buffer_Write [] NewBlockWitnessBuilder =
     Inr ([0xA5, 0x65, 0x63, 0x6F, 0x64, 0x65, 0x73, 0,
           0x66, 0x68, 0x61, 0x73, 0x68, 0x65, 0x73, 0,
           0x64, 0x6B, 0x65, 0x79, 0x73, 0,
           0x69, 0x73, 0x74, 0x72, 0x75, 0x63, 0x74, 0x75, 0x72, 0x65, 0,
           0x66, 0x76, 0x61, 0x6C, 0x75, 0x65, 0x73, 0], NewBlockWitnessBuilder) \<and>
   Structure NewBlockWitnessBuilder \<noteq> [12]"
  by code_simp




text \<open>C1. \<open>BlockWitnessToTrie\<close> never returns a trie or a code map: whatever the
  bytes, and whether or not the header decodes, both results are nil. The round trip
  through \<open>MakeBlockWitness\<close> and \<open>WriteTo\<close> therefore does not give the trie back.\<close>

theorem BlockWitnessToTrie_returns_nil:
  "fst (BlockWitnessToTrie decode_lens bw) = None \<and>
   fst (snd (BlockWitnessToTrie decode_lens bw)) = None"
  by (simp add: BlockWitnessToTrie_def split: sum.splits)

text \<open>The bytes of the witness of a trie with one leaf, key nibbles 1 2 3 and the
  terminator, value "VAL", resolved: header, keys tape, values tape, structure tape
  (\<open>Leaf\<close> with key length 4).\<close>

lemma leaf_witness_bytes:
  "bindE (MakeBlockWitness sample_env NewBlockWitnessBuilder
            \<lparr>root = ShortNode [1, 2, 3, 16] (ValueNode [0x56, 0x41, 0x4C])\<rparr> [[1, 2, 3, 16]])
     (\<lambda>(bwb, rs). bindE (WriteTo buffer_Write [] bwb) (\<lambda>(bw, bwb1). Inr bw)) =
   Inr [0xA5, 0x65, 0x63, 0x6F, 0x64, 0x65, 0x73, 0,
        0x66, 0x68, 0x61, 0x73, 0x68, 0x65, 0x73, 0,
        0x64, 0x6B, 0x65, 0x79, 0x73, 5,
        0x69, 0x73, 0x74, 0x72, 0x75, 0x63, 0x74, 0x75, 0x72, 0x65, 2,
        0x66, 0x76, 0x61, 0x6C, 0x75, 0x65, 0x73, 4,
        0x44, 1, 2, 3, 16, 0x43, 0x56, 0x41, 0x4C, 0, 4]"
  by code_simp

text \<open>A \<open>valueNode\<close> whose slice is nil is written to the values tape as the CBOR nil
  (0xF6), an empty one as the empty byte string (0x40).\<close>

lemma nil_value_on_tape:
  "makeBlockWitness sample_env NilValueNode [] False (NewBlockWitnessBuilder, []) =
     Inr (\<lparr>Keys = [], Values = [0xF6], Hashes = [], Codes = [], Structure = []\<rparr>, []) \<and>
   makeBlockWitness sample_env (ValueNode []) [] False (NewBlockWitnessBuilder, []) =
     Inr (\<lparr>Keys = [], Values = [0x40], Hashes = [], Codes = [], Structure = []\<rparr>, [])"
  by code_simp

section \<open>The streaming resolver\<close>

subsection \<open>What the loop leaves alone\<close>

lemma clear_level_frame [simp]:
  "requests (clear_level tr l) = requests tr"
  "accounts (clear_level tr l) = accounts tr"
  "hashes (clear_level tr l) = hashes tr"
  by (simp_all add: clear_level_def)

lemma afterLevel_frame [simp]:
  "requests (afterLevel ext level tr) = requests tr"
  "accounts (afterLevel ext level tr) = accounts tr"
  "hashes (afterLevel ext level tr) = hashes tr"
  by (simp_all add: afterLevel_def)

lemma promoteShort_frame [simp]:
  "requests (promoteShort n level tr) = requests tr"
  "accounts (promoteShort n level tr) = accounts tr"
  "hashes (promoteShort n level tr) = hashes tr"
  by (simp_all add: promoteShort_def Let_def)

lemma storeBranch_frame [simp]:
  "requests (storeBranch c n level tr) = requests tr"
  "accounts (storeBranch c n level tr) = accounts tr"
  "hashes (storeBranch c n level tr) = hashes tr"
  by (simp_all add: storeBranch_def Let_def)

lemma placeValue_frame [simp]:
  "requests (placeValue tr l hex) = requests tr"
  "accounts (placeValue tr l hex) = accounts tr"
  "hashes (placeValue tr l hex) = hashes tr"
  by (simp_all add: placeValue_def)

lemma adjustRhIndices_frame [simp]:
  "requests (adjustRhIndices tr hex) = requests tr"
  "accounts (adjustRhIndices tr hex) = accounts tr"
  "hashes (adjustRhIndices tr hex) = hashes tr"
  by (simp_all add: adjustRhIndices_def split: prod.splits)

lemma finishLevel_frame:
  assumes "finishLevel h hex rhPrefixLen ext level tr = Inr tr'"
  shows "requests tr' = requests tr \<and> accounts tr' = accounts tr \<and> hashes tr' = hashes tr"
  using assms
  by (auto simp: finishLevel_def Let_def split: if_splits prod.splits)

lemma finishLevels_frame:
  "finishLevels h hex rhPrefixLen ext stopLevel level tr = Inr tr' \<Longrightarrow>
     requests tr' = requests tr \<and> accounts tr' = accounts tr \<and> hashes tr' = hashes tr"
proof (induction level arbitrary: tr)
  case 0
  then show ?case
    by (auto split: if_splits dest: finishLevel_frame)
next
  case (Suc level)
  show ?case
  proof (cases "Suc level < stopLevel")
    case True
    with Suc.prems show ?thesis by simp
  next
    case False
    with Suc.prems obtain tr1 where
      a: "finishLevel h hex rhPrefixLen ext (Suc level) tr = Inr tr1" and
      b: "finishLevels h hex rhPrefixLen ext stopLevel level tr1 = Inr tr'"
      by (auto split: sum.splits)
    from finishLevel_frame [OF a] Suc.IH [OF b] show ?thesis
      by simp
  qed
qed

lemma bindE_eq_Inr: "bindE m f = Inr y \<longleftrightarrow> (\<exists>x. m = Inr x \<and> f x = Inr y)"
  by (cases m) simp_all

lemma finishKeyLevels_frame:
  assumes "finishKeyLevels h tr k = Inr (tr1, ri)"
  shows "requests tr1 = requests tr \<and> accounts tr1 = accounts tr \<and> hashes tr1 = hashes tr"
  using assms
  by (auto simp: finishKeyLevels_def Let_def bindE_eq_Inr split: if_splits
      dest!: finishLevels_frame)

lemma finishKeyLevels_ri:
  assumes "finishKeyLevels h tr k = Inr (tr1, ri)"
  shows "ri < length (requests tr)"
  using assms
  by (auto simp: finishKeyLevels_def Let_def bindE_eq_Inr currentRequest_def split: if_splits)


lemma finishRequest_error_frame:
  assumes "finishRequest h tr ri = Inr (Some err, tr')"
  shows "tr' = tr"
  using assms
  by (auto simp: finishRequest_def Let_def split: if_splits prod.splits sum.splits)

lemma finishRequest_accounts:
  assumes "finishRequest h tr ri = Inr (e, tr')"
  shows "accounts tr' = accounts tr"
  using assms
  by (auto simp: finishRequest_def Let_def split: if_splits prod.splits sum.splits)

lemma finishPreviousKey_split:
  assumes "finishPreviousKey h tr k = Inr (e, tr')"
  obtains tr1 ri where "finishKeyLevels h tr k = Inr (tr1, ri)"
    and "(if k = None then finishRequest h tr1 ri else Inr (None, tr1)) = Inr (e, tr')"
  using assms by (auto simp: finishPreviousKey_def split: sum.splits)

lemma finishPreviousKey_accounts:
  assumes "finishPreviousKey h tr k = Inr (e, tr')"
  shows "accounts tr' = accounts tr"
proof -
  from assms obtain tr1 ri where a: "finishKeyLevels h tr k = Inr (tr1, ri)"
    and b: "(if k = None then finishRequest h tr1 ri else Inr (None, tr1)) = Inr (e, tr')"
    by (rule finishPreviousKey_split)
  from finishKeyLevels_frame [OF a] have "accounts tr1 = accounts tr"
    by simp
  moreover from b have "accounts tr' = accounts tr1"
    by (cases "k = None") (auto dest: finishRequest_accounts)
  ultimately show ?thesis
    by simp
qed

lemma finishPreviousKey_error_frame:
  assumes "finishPreviousKey h tr k = Inr (Some err, tr')"
  shows "requests tr' = requests tr"
proof -
  from assms obtain tr1 ri where a: "finishKeyLevels h tr k = Inr (tr1, ri)"
    and b: "(if k = None then finishRequest h tr1 ri else Inr (None, tr1)) = Inr (Some err, tr')"
    by (rule finishPreviousKey_split)
  from finishKeyLevels_frame [OF a] have "requests tr1 = requests tr"
    by simp
  moreover from b have "tr' = tr1"
    by (cases "k = None") (auto dest: finishRequest_error_frame)
  ultimately show ?thesis
    by simp
qed

subsection \<open>A wrong hash\<close>



text \<open>When the hash is the expected one, the same call sets \<open>resolved\<close> and puts the
  root into the trie.\<close>

lemma finishPreviousKey_splices_on_match:
  "map_sum id (\<lambda>(e, tr). (e, requests tr))
     (finishPreviousKey sample_hasher
        (sample_resolver\<lparr>requests := [sample_request\<lparr>resolveHash := Some (replicate 32 0xAB)\<rparr>]\<rparr>)
        None) =
   Inr (None,
        [sample_request
           \<lparr>resolveHash := Some (replicate 32 0xAB),
            resolved := ShortNode (0x20 # replicate 32 0x12) (ValueNode [1, 2, 3]),
            t_root := ShortNode (0x20 # replicate 32 0x12) (ValueNode [1, 2, 3])\<rparr>])"
  by code_simp

subsection \<open>What a level with two or more entries stores\<close>

lemma length_clear_level [simp]:
  "length (vertical (clear_level tr l)) = length (vertical tr)"
  "length (nodeStack (clear_level tr l)) = length (nodeStack tr)"
  by (simp_all add: clear_level_def)

lemma vertical_afterLevel:
  "level < length (vertical tr) \<Longrightarrow>
     vertical (afterLevel ext level tr) ! level = vertical tr ! level"
  by (simp add: afterLevel_def clear_level_def)

lemma nodeStack_afterLevel:
  "level < length (nodeStack tr) \<Longrightarrow>
     nodeStack (afterLevel ext level tr) ! level = nodeStack tr ! level"
  by (simp add: afterLevel_def clear_level_def)

lemma length_storeBranch [simp]:
  "length (vertical (storeBranch c n level tr)) = length (vertical tr)"
  "length (nodeStack (storeBranch c n level tr)) = length (nodeStack tr)"
  by (simp_all add: storeBranch_def Let_def)

lemma vertical_storeBranch:
  "level < length (vertical tr) \<Longrightarrow>
     vertical (storeBranch c n level tr) ! level = set_child (vertical tr ! level) n c"
  by (simp add: storeBranch_def Let_def)

lemma Val_storeBranch:
  "level < length (nodeStack tr) \<Longrightarrow> fillCount tr ! level = 0 \<Longrightarrow>
     Val (nodeStack (storeBranch c n level tr) ! level) = c"
  by (simp add: storeBranch_def Let_def)

lemma Children_set_child:
  "unat n < length (Children f) \<Longrightarrow> Children (set_child f n c) ! unat n = c"
  by (simp add: set_child_def)

lemma is_branch_copies [simp]:
  "is_branch (full_duoCopy f)" "is_branch (full_copy f)" "\<not> is_branch (HashNode x)"
  "\<not> is_hashNode (full_duoCopy f)" "\<not> is_hashNode (full_copy f)" "is_hashNode (HashNode x)"
  by (simp_all add: is_branch_def is_hashNode_def full_duoCopy_def full_copy_def
      split: list.splits)

text \<open>The loop body. When it finishes a level whose level below holds two or more
  entries, the slot of the current nibble in the full node of this level receives the
  copy of the full node below (its \<open>duoCopy\<close> when the count is 2, its \<open>copy\<close>
  otherwise) exactly when \<open>level < rhPrefixLen\<close> or the resolver is in hashes mode and
  the level is 5; in every other case it receives the reference to the hash. The same
  node becomes the value of the short node of this level when this level was empty.\<close>

lemma finishLevel_branch_slot:
  assumes fin: "finishLevel h hex rhPrefixLen ext level tr = Inr tr'"
    and fc: "2 \<le> fillCount tr ! (level + 1)"
    and wf: "length (vertical tr) = Levels + 1" "length (nodeStack tr) = Levels + 1"
      "length (Children (vertical tr ! level)) = 17"
  shows "let stored = Children (vertical tr' ! level) ! unat (hex ! level);
             full = vertical tr ! (level + 1);
             keep = (level < rhPrefixLen \<or> (hashes tr \<and> level = 5))
         in stored = (if keep
                      then (if fillCount tr ! (level + 1) = 2 then full_duoCopy full
                            else full_copy full)
                      else HashNode (snd (h (full_copy full) False))) \<and>
            (is_branch stored \<longleftrightarrow> keep) \<and>
            (is_hashNode stored \<longleftrightarrow> \<not> keep) \<and>
            (fillCount tr ! level = 0 \<longrightarrow> Val (nodeStack tr' ! level) = stored)"
proof -
  let ?full = "vertical tr ! (level + 1)"
  let ?keep = "level < rhPrefixLen \<or> (hashes tr \<and> level = 5)"
  let ?c = "if ?keep then (if fillCount tr ! (level + 1) = 2 then full_duoCopy ?full
                           else full_copy ?full)
            else HashNode (snd (h (full_copy ?full) False))"
  from fin have guard: "level < length hex" "level + 1 \<le> Levels" "unat (hex ! level) < 17"
    by (auto simp: finishLevel_def split: if_splits)
  from fc have ne1: "fillCount tr ! (level + 1) \<noteq> 1"
    by simp
  from fin guard ne1 have tr': "tr' = afterLevel ext level (storeBranch ?c (hex ! level) level tr)"
    by (auto simp: finishLevel_def Let_def split: if_splits prod.splits)
  from guard wf have lv: "level < length (vertical tr)" "level < length (nodeStack tr)"
    by simp_all
  have stored: "Children (vertical tr' ! level) ! unat (hex ! level) = ?c"
    using lv guard wf(3)
    by (simp only: tr' vertical_afterLevel length_storeBranch vertical_storeBranch
        Children_set_child)
  have val: "fillCount tr ! level = 0 \<Longrightarrow> Val (nodeStack tr' ! level) = ?c"
    using lv
    by (simp only: tr' nodeStack_afterLevel length_storeBranch Val_storeBranch)
  show ?thesis
    unfolding Let_def stored using val by simp
qed

subsection \<open>The resolve keys next to the current key\<close>

lemma prefixLen_Nil [simp]: "prefixLen [] b = 0" "prefixLen a [] = 0"
  by (simp_all add: prefixLen_def)

lemma prefixLen_Cons [simp]:
  "prefixLen (x # xs) (y # ys) = (if x = y then Suc (prefixLen xs ys) else 0)"
  by (simp add: prefixLen_def)

lemma prefixLen_below:
  fixes x y z :: "byte list"
  shows "x \<le> y \<Longrightarrow> y \<le> z \<Longrightarrow> prefixLen z x \<le> prefixLen z y"
proof (induction z arbitrary: x y)
  case Nil
  then show ?case by simp
next
  case (Cons c zs)
  show ?case
  proof (cases x)
    case Nil
    then show ?thesis by simp
  next
    case x: (Cons a xs)
    show ?thesis
    proof (cases "a = c")
      case False
      with x show ?thesis by simp
    next
      case True
      from Cons.prems(1) x obtain b ys where y: "y = b # ys"
        by (cases y) auto
      from Cons.prems x y True have "b = c" "xs \<le> ys" "ys \<le> zs"
        by (auto simp: Cons_le_Cons)
      with Cons.IH [of xs ys] x y True show ?thesis
        by simp
    qed
  qed
qed

lemma prefixLen_above:
  fixes x y z :: "byte list"
  shows "x \<le> y \<Longrightarrow> y \<le> z \<Longrightarrow> prefixLen x z \<le> prefixLen x y"
proof (induction x arbitrary: y z)
  case Nil
  then show ?case by simp
next
  case (Cons a xs)
  show ?case
  proof (cases z)
    case Nil
    then show ?thesis by simp
  next
    case z: (Cons c zs)
    show ?thesis
    proof (cases "a = c")
      case False
      with z show ?thesis by simp
    next
      case True
      from Cons.prems(1) obtain b ys where y: "y = b # ys"
        by (cases y) auto
      from Cons.prems z y True have "b = c" "xs \<le> ys" "ys \<le> zs"
        by (auto simp: Cons_le_Cons)
      with Cons.IH [of ys zs] z y True show ?thesis
        by simp
    qed
  qed
qed

lemma bytes_Compare_less: "bytes_Compare a b = - 1 \<longleftrightarrow> a < b"
  by (simp add: bytes_Compare_def)

lemma rh_adjust_post:
  assumes "gt < length rhs \<longrightarrow> resComp = bytes_Compare hex (rhs ! gt)"
    and "rh_adjust hex rhs gt lte resComp = (gt', lte')"
  shows "gt \<le> gt' \<and> gt' \<le> max gt (length rhs) \<and> lte' = lte + int (gt' - gt) \<and>
         (\<forall>i. gt \<le> i \<and> i < gt' \<longrightarrow> rhs ! i \<le> hex) \<and>
         (gt' < length rhs \<longrightarrow> hex < rhs ! gt')"
  using assms
proof (induction hex rhs gt lte resComp rule: rh_adjust.induct)
  case (1 hex rhs gt lte resComp)
  show ?case
  proof (cases "gt < length rhs \<and> resComp \<noteq> - 1")
    case False
    with "1.prems" have "gt' = gt" "lte' = lte"
      by (simp_all add: rh_adjust.simps [of hex rhs gt])
    with False "1.prems"(1) show ?thesis
      by (auto simp: bytes_Compare_less)
  next
    case True
    let ?rc = "if gt + 1 < length rhs then bytes_Compare hex (rhs ! (gt + 1)) else resComp"
    from True "1.prems"(2) have run: "rh_adjust hex rhs (gt + 1) (lte + 1) ?rc = (gt', lte')"
      by (simp add: rh_adjust.simps [of hex rhs gt])
    have pre: "gt + 1 < length rhs \<longrightarrow> ?rc = bytes_Compare hex (rhs ! (gt + 1))"
      by simp
    from "1.IH" [OF True pre run]
    have ih: "gt + 1 \<le> gt'" "gt' \<le> max (gt + 1) (length rhs)"
      "lte' = lte + 1 + int (gt' - (gt + 1))"
      "\<forall>i. gt + 1 \<le> i \<and> i < gt' \<longrightarrow> rhs ! i \<le> hex"
      "gt' < length rhs \<longrightarrow> hex < rhs ! gt'"
      by simp_all
    from True "1.prems"(1) have here: "rhs ! gt \<le> hex"
      by (auto simp: bytes_Compare_def split: if_splits)
    have "\<forall>i. gt \<le> i \<and> i < gt' \<longrightarrow> rhs ! i \<le> hex"
    proof (intro allI impI)
      fix i assume "gt \<le> i \<and> i < gt'"
      then show "rhs ! i \<le> hex"
        using here ih(4) by (cases "i = gt") auto
    qed
    with ih True show ?thesis
      by auto
  qed
qed

lemma adjustRhIndices_post:
  assumes pos: "rh_positioned tr hex"
  defines "tr2 \<equiv> adjustRhIndices tr hex"
  shows "resolveHexes tr2 = resolveHexes tr \<and>
         rhIndexLte tr2 = int (rhIndexGt tr2) - 1 \<and>
         rhIndexGt tr \<le> rhIndexGt tr2 \<and>
         rhIndexGt tr2 \<le> length (resolveHexes tr) \<and>
         (\<forall>i < rhIndexGt tr2. resolveHexes tr ! i \<le> hex) \<and>
         (\<forall>i. rhIndexGt tr2 \<le> i \<and> i < length (resolveHexes tr) \<longrightarrow> hex < resolveHexes tr ! i)"
proof -
  let ?rhs = "resolveHexes tr"
  from pos have srt: "sorted ?rhs" and lte: "rhIndexLte tr = int (rhIndexGt tr) - 1"
    and gt: "rhIndexGt tr \<le> length ?rhs"
    and before: "\<forall>i < rhIndexGt tr. ?rhs ! i \<le> hex"
    by (auto simp: rh_positioned_def list_all_length)
  show ?thesis
  proof (cases "rhIndexGt tr < length ?rhs")
    case False
    with gt have "rhIndexGt tr = length ?rhs" by simp
    moreover from False have "tr2 = tr"
      by (simp add: tr2_def adjustRhIndices_def)
    ultimately show ?thesis
      using lte before by auto
  next
    case True
    obtain gt' lte' where r: "rh_adjust hex ?rhs (rhIndexGt tr) (rhIndexLte tr)
        (bytes_Compare hex (?rhs ! rhIndexGt tr)) = (gt', lte')"
      by (cases "rh_adjust hex ?rhs (rhIndexGt tr) (rhIndexLte tr)
        (bytes_Compare hex (?rhs ! rhIndexGt tr))") auto
    with True have tr2: "tr2 = tr\<lparr>rhIndexGt := gt', rhIndexLte := lte'\<rparr>"
      by (simp add: tr2_def adjustRhIndices_def)
    from rh_adjust_post [OF _ r]
    have p: "rhIndexGt tr \<le> gt'" "gt' \<le> max (rhIndexGt tr) (length ?rhs)"
      "lte' = rhIndexLte tr + int (gt' - rhIndexGt tr)"
      "\<forall>i. rhIndexGt tr \<le> i \<and> i < gt' \<longrightarrow> ?rhs ! i \<le> hex"
      "gt' < length ?rhs \<longrightarrow> hex < ?rhs ! gt'"
      by simp_all
    from p(2) gt have le: "gt' \<le> length ?rhs"
      by simp
    have below: "\<forall>i < gt'. ?rhs ! i \<le> hex"
      using before p(4) by (metis not_le_imp_less)
    have above: "\<forall>i. gt' \<le> i \<and> i < length ?rhs \<longrightarrow> hex < ?rhs ! i"
    proof (intro allI impI)
      fix i assume i: "gt' \<le> i \<and> i < length ?rhs"
      then have "gt' < length ?rhs" by simp
      with p(5) have "hex < ?rhs ! gt'" by simp
      also from srt i have "?rhs ! gt' \<le> ?rhs ! i"
        by (simp add: sorted_iff_nth_mono)
      finally show "hex < ?rhs ! i" .
    qed
    from p(1,3) lte have "lte' = int gt' - 1"
      by simp
    with tr2 p(1) le below above show ?thesis
      by simp
  qed
qed

lemma rhPrefixLenOf_onResolvingPath:
  assumes pos: "rh_positioned tr hex"
  shows "\<exists>r. rhPrefixLenOf (adjustRhIndices tr hex) hex = Inr r \<and>
           (\<forall>level. level < r \<longleftrightarrow> onResolvingPath (resolveHexes tr) hex level)"
proof -
  let ?rhs = "resolveHexes tr"
  let ?tr2 = "adjustRhIndices tr hex"
  let ?gt = "rhIndexGt ?tr2"
  from pos have srt: "sorted ?rhs"
    by (simp add: rh_positioned_def)
  from adjustRhIndices_post [OF pos]
  have rhs: "resolveHexes ?tr2 = ?rhs" and lte: "rhIndexLte ?tr2 = int ?gt - 1"
    and le: "?gt \<le> length ?rhs"
    and below: "\<forall>i < ?gt. ?rhs ! i \<le> hex"
    and above: "\<forall>i. ?gt \<le> i \<and> i < length ?rhs \<longrightarrow> hex < ?rhs ! i"
    by simp_all
  let ?p0 = "if 0 < ?gt then prefixLen hex (?rhs ! (?gt - 1)) else 0"
  let ?r = "if ?gt < length ?rhs then max ?p0 (prefixLen hex (?rhs ! ?gt)) else ?p0"
  have nopanic: "\<not> (0 \<le> int ?gt - 1 \<and> length ?rhs \<le> nat (int ?gt - 1))"
    using le by arith
  have p0: "(if 0 \<le> int ?gt - 1 then prefixLen hex (?rhs ! nat (int ?gt - 1)) else 0) = ?p0"
  proof (cases "0 < ?gt")
    case True
    then have "nat (int ?gt - 1) = ?gt - 1" "0 \<le> int ?gt - 1"
      by arith+
    with True show ?thesis
      by simp
  next
    case False
    then have "\<not> 0 \<le> int ?gt - 1"
      by arith
    with False show ?thesis
      by simp
  qed
  have val: "rhPrefixLenOf ?tr2 hex = Inr ?r"
    unfolding rhPrefixLenOf_def rhs lte Let_def
    using nopanic p0 by simp
  have iff: "level < ?r \<longleftrightarrow> onResolvingPath ?rhs hex level" for level
  proof
    assume a: "level < ?r"
    have "\<exists>i < length ?rhs. level < prefixLen hex (?rhs ! i)"
    proof (cases "level < ?p0")
      case True
      then have "0 < ?gt" "level < prefixLen hex (?rhs ! (?gt - 1))"
        by (auto split: if_splits)
      moreover with le have "?gt - 1 < length ?rhs" by simp
      ultimately show ?thesis by blast
    next
      case False
      with a have "?gt < length ?rhs" "level < prefixLen hex (?rhs ! ?gt)"
        by (auto split: if_splits)
      then show ?thesis by blast
    qed
    then show "onResolvingPath ?rhs hex level"
      by (auto simp: onResolvingPath_def list_ex_iff)
  next
    assume "onResolvingPath ?rhs hex level"
    then obtain i where i: "i < length ?rhs" "level < prefixLen hex (?rhs ! i)"
      by (auto simp: onResolvingPath_def list_ex_iff in_set_conv_nth)
    show "level < ?r"
    proof (cases "i < ?gt")
      case True
      then have pos: "0 < ?gt" by simp
      with le have "?gt - 1 < length ?rhs" by simp
      with srt True have "?rhs ! i \<le> ?rhs ! (?gt - 1)"
        by (simp add: sorted_iff_nth_mono)
      moreover from below pos have "?rhs ! (?gt - 1) \<le> hex" by simp
      ultimately have "prefixLen hex (?rhs ! i) \<le> prefixLen hex (?rhs ! (?gt - 1))"
        by (rule prefixLen_below)
      with i(2) pos show ?thesis
        by (auto simp: max_def)
    next
      case False
      with i(1) have g: "?gt < length ?rhs" "?gt \<le> i" by simp_all
      with above have "hex \<le> ?rhs ! ?gt" by (simp add: less_imp_le)
      moreover from srt g i(1) have "?rhs ! ?gt \<le> ?rhs ! i"
        by (simp add: sorted_iff_nth_mono)
      ultimately have "prefixLen hex (?rhs ! i) \<le> prefixLen hex (?rhs ! ?gt)"
        by (rule prefixLen_above)
      with i(2) g(1) show ?thesis
        by (auto simp: max_def)
    qed
  qed
  from val iff show ?thesis
    by blast
qed

text \<open>The invariant of the walk: the adjustment leaves the cursor positioned for every
  later key.\<close>

lemma rh_positioned_adjustRhIndices:
  assumes pos: "rh_positioned tr hex" and le: "hex \<le> hex'"
  shows "rh_positioned (adjustRhIndices tr hex) hex'"
proof -
  from pos have srt: "sorted (resolveHexes tr)"
    by (simp add: rh_positioned_def)
  from adjustRhIndices_post [OF pos] le srt show ?thesis
    by (auto simp: rh_positioned_def list_all_length intro: order_trans)
qed

lemma rh_positioned_start:
  "sorted (resolveHexes tr) \<Longrightarrow> rhIndexGt tr = 0 \<Longrightarrow> rhIndexLte tr = - 1 \<Longrightarrow>
     rh_positioned tr hex"
  by (simp add: rh_positioned_def)

subsection \<open>The levels of the loop\<close>

lemma list_all_update: "list_all P xs \<Longrightarrow> P x \<Longrightarrow> list_all P (xs[i := x])"
  using set_update_subset_insert [of xs i x] by (auto simp: list_all_iff)

lemma resolver_wf_clear_level: "resolver_wf tr \<Longrightarrow> resolver_wf (clear_level tr l)"
  by (simp add: resolver_wf_def clear_level_def list_all_update)

lemma resolver_wf_afterLevel: "resolver_wf tr \<Longrightarrow> resolver_wf (afterLevel ext level tr)"
  by (simp add: afterLevel_def resolver_wf_clear_level)

lemma resolver_wf_child:
  "resolver_wf tr \<Longrightarrow> level \<le> Levels \<Longrightarrow>
     length (Children (set_child (vertical tr ! level) n c)) = 17"
  by (simp add: resolver_wf_def set_child_def list_all_length)

lemma resolver_wf_promoteShort:
  "resolver_wf tr \<Longrightarrow> level \<le> Levels \<Longrightarrow> resolver_wf (promoteShort n level tr)"
  using resolver_wf_child [of tr level n]
  by (simp add: resolver_wf_def promoteShort_def Let_def list_all_update)

lemma resolver_wf_storeBranch:
  "resolver_wf tr \<Longrightarrow> level \<le> Levels \<Longrightarrow> resolver_wf (storeBranch c n level tr)"
  using resolver_wf_child [of tr level n]
  by (simp add: resolver_wf_def storeBranch_def Let_def list_all_update)

lemma resolver_wf_placeValue: "resolver_wf tr \<Longrightarrow> resolver_wf (placeValue tr l hex)"
  by (simp add: resolver_wf_def placeValue_def)

lemma resolver_wf_adjustRhIndices: "resolver_wf tr \<Longrightarrow> resolver_wf (adjustRhIndices tr hex)"
  by (simp add: resolver_wf_def adjustRhIndices_def split: prod.splits)

lemma resolver_wf_finishLevel:
  assumes "finishLevel h hex rhPrefixLen ext level tr = Inr tr'" "resolver_wf tr"
  shows "resolver_wf tr'"
proof -
  from assms(1) have lv: "level \<le> Levels"
    by (auto simp: finishLevel_def split: if_splits)
  from assms(1) obtain c where
    "tr' = afterLevel ext level (promoteShort (hex ! level) level tr) \<or>
     tr' = afterLevel ext level (storeBranch c (hex ! level) level tr)"
    by (auto simp: finishLevel_def Let_def split: if_splits prod.splits)
  with assms(2) lv show ?thesis
    by (auto intro: resolver_wf_afterLevel resolver_wf_promoteShort resolver_wf_storeBranch)
qed

lemma resolver_wf_finishLevels:
  "finishLevels h hex rhPrefixLen ext stopLevel level tr = Inr tr' \<Longrightarrow> resolver_wf tr \<Longrightarrow>
     resolver_wf tr'"
proof (induction level arbitrary: tr)
  case 0
  then show ?case
    by (auto split: if_splits dest: resolver_wf_finishLevel)
next
  case (Suc level)
  show ?case
  proof (cases "Suc level < stopLevel")
    case True
    with Suc.prems show ?thesis by simp
  next
    case False
    with Suc.prems(1) obtain tr1 where
      a: "finishLevel h hex rhPrefixLen ext (Suc level) tr = Inr tr1" and
      b: "finishLevels h hex rhPrefixLen ext stopLevel level tr1 = Inr tr'"
      by (auto split: sum.splits)
    from Suc.IH [OF b resolver_wf_finishLevel [OF a Suc.prems(2)]] show ?thesis .
  qed
qed

text \<open>The loop from \<open>start\<close> down to \<open>stop\<close> passes every level between them: it is
  the loop down to \<open>level + 1\<close> followed by the loop from \<open>level\<close>, which begins with
  the body at \<open>level\<close>.\<close>

lemma finishLevels_split:
  "finishLevels h hex r ext stop start tr = Inr t \<Longrightarrow> stop \<le> level \<Longrightarrow> level \<le> start \<Longrightarrow>
     \<exists>s. finishLevels h hex r ext (Suc level) start tr = Inr s \<and>
         finishLevels h hex r ext stop level s = Inr t"
proof (induction start arbitrary: tr)
  case 0
  then show ?case by simp
next
  case (Suc start)
  show ?case
  proof (cases "level = Suc start")
    case True
    with Suc.prems(1) show ?thesis by simp
  next
    case False
    with Suc.prems(3) have le: "level \<le> start" by simp
    with Suc.prems(2) have ns: "\<not> Suc start < stop" by simp
    with Suc.prems(1) obtain tr1 where
      a: "finishLevel h hex r ext (Suc start) tr = Inr tr1" and
      b: "finishLevels h hex r ext stop start tr1 = Inr t"
      by (auto split: sum.splits)
    from Suc.IH [OF b Suc.prems(2) le] obtain s where
      s: "finishLevels h hex r ext (Suc level) start tr1 = Inr s"
         "finishLevels h hex r ext stop level s = Inr t"
      by blast
    from le a s(1) have "finishLevels h hex r ext (Suc level) (Suc start) tr = Inr s"
      by simp
    with s(2) show ?thesis by blast
  qed
qed

lemma finishLevels_first:
  "finishLevels h hex r ext stop level s = Inr t \<Longrightarrow> stop \<le> level \<Longrightarrow>
     \<exists>s'. finishLevel h hex r ext level s = Inr s'"
  by (cases level) (auto split: sum.splits if_splits)

lemma currentRequest_Inr: "currentRequest tr = Inr ri \<Longrightarrow> ri = reqIndices tr ! keyIdx tr"
  by (auto simp: currentRequest_def split: if_splits)

lemma rh_positioned_placeValue [simp]:
  "rh_positioned (placeValue tr l hex) hex' = rh_positioned tr hex'"
  by (simp add: rh_positioned_def placeValue_def)

lemma resolveHexes_placeValue [simp]: "resolveHexes (placeValue tr l hex) = resolveHexes tr"
  by (simp add: placeValue_def)

text \<open>C8. In \<open>finishPreviousKey\<close>, let the resolver's arrays have their sizes and the
  cursor into the sorted resolve keys be where the walk leaves it (the resolve keys
  before \<open>rhIndexGt\<close> are not greater than the current key). Then at every level of the
  loop, from \<open>startLevel\<close> down to \<open>stopLevel\<close>, the flag \<open>onResolvingPath\<close> that the
  code computes from the two neighbouring resolve keys says exactly that some resolve
  key begins with the first \<open>level + 1\<close> nibbles of the current key. When the level
  below holds two or more entries, the slot of the current nibble in the full node of
  this level receives the copy of the full node below (its \<open>duoCopy\<close> when the count
  is 2, its \<open>copy\<close> otherwise) exactly when the prefix is on a resolving path or the
  resolver is in hashes mode and the level is 5; in every other case it receives the
  reference to the hash. The same node becomes the value of the short node of this level
  when this level was empty. A hash reference is therefore stored only for a prefix that
  no resolve key begins with. \<open>s\<close> is the resolver on reaching the level, \<open>s'\<close> after
  the body of the loop, \<open>t\<close> at the end of the loop.\<close>

theorem finishPreviousKey_branch_slots:
  fixes h :: hasher and tr :: TrieResolver and k :: "byte list option"
    and stopLevel level :: nat
  defines "hex \<equiv> keybytesToHex (tr_key tr)"
    and "ext \<equiv> extResolvePos (requests tr ! (reqIndices tr ! keyIdx tr))"
  defines "start \<equiv> max (max (startLevel tr) ext) stopLevel"
  defines "tr2 \<equiv> adjustRhIndices (placeValue tr (start + 1) hex) hex"
  assumes run: "finishPreviousKey h tr k = Inr (e, trF)"
    and wf: "resolver_wf tr"
    and pos: "rh_positioned tr hex"
    and stop: "stopLevelFor k (tr_key tr) = Inr stopLevel"
    and lv: "stopLevel \<le> level" "level \<le> start"
  shows "\<exists>rhPrefixLen s s' t.
           rhPrefixLenOf tr2 hex = Inr rhPrefixLen \<and>
           finishLevels h hex rhPrefixLen ext (Suc level) start tr2 = Inr s \<and>
           finishLevel h hex rhPrefixLen ext level s = Inr s' \<and>
           finishLevels h hex rhPrefixLen ext stopLevel level s = Inr t \<and>
           finishKeyLevels h tr k =
             Inr (t\<lparr>startLevel := stopLevel\<rparr>, reqIndices tr ! keyIdx tr) \<and>
           (k \<noteq> None \<longrightarrow> trF = t\<lparr>startLevel := stopLevel\<rparr>) \<and>
           (level < rhPrefixLen \<longleftrightarrow> onResolvingPath (resolveHexes tr) hex level) \<and>
           (2 \<le> fillCount s ! (level + 1) \<longrightarrow>
              (let stored = Children (vertical s' ! level) ! unat (hex ! level);
                   full = vertical s ! (level + 1);
                   keep = (onResolvingPath (resolveHexes tr) hex level
                             \<or> (hashes tr \<and> level = 5))
               in stored = (if keep
                            then (if fillCount s ! (level + 1) = 2 then full_duoCopy full
                                  else full_copy full)
                            else HashNode (snd (h (full_copy full) False))) \<and>
                  (is_branch stored \<longleftrightarrow> keep) \<and>
                  (is_hashNode stored \<longleftrightarrow> \<not> keep) \<and>
                  (fillCount s ! level = 0 \<longrightarrow> Val (nodeStack s' ! level) = stored)))"
proof -
  from run obtain tr1 ri where fk: "finishKeyLevels h tr k = Inr (tr1, ri)"
    by (rule finishPreviousKey_split)
  from fk stop have cr: "currentRequest tr = Inr ri"
    by (auto simp: finishKeyLevels_def Let_def bindE_eq_Inr split: if_splits)
  then have ri: "reqIndices tr ! keyIdx tr = ri"
    by (auto dest: currentRequest_Inr)
  from fk obtain r t where
    r: "rhPrefixLenOf tr2 hex = Inr r" and
    loop: "finishLevels h hex r ext stopLevel start tr2 = Inr t" and
    tr1: "tr1 = t\<lparr>startLevel := stopLevel\<rparr>"
    unfolding finishKeyLevels_def tr2_def start_def ext_def hex_def stop cr ri
    by (auto simp: Let_def bindE_eq_Inr split: if_splits)
  from pos have "rh_positioned (placeValue tr (start + 1) hex) hex"
    by simp
  from rhPrefixLenOf_onResolvingPath [OF this] r
  have path: "level < r \<longleftrightarrow> onResolvingPath (resolveHexes tr) hex level"
    unfolding tr2_def by auto
  from finishLevels_split [OF loop lv] obtain s where
    s: "finishLevels h hex r ext (Suc level) start tr2 = Inr s" and
    rest: "finishLevels h hex r ext stopLevel level s = Inr t"
    by blast
  from finishLevels_first [OF rest lv(1)] obtain s' where
    s': "finishLevel h hex r ext level s = Inr s'"
    by blast
  have wf2: "resolver_wf tr2"
    unfolding tr2_def by (intro resolver_wf_adjustRhIndices resolver_wf_placeValue wf)
  have wfs: "resolver_wf s"
    using resolver_wf_finishLevels [OF s wf2] .
  from s' have "level < Levels + 1"
    by (auto simp: finishLevel_def split: if_splits)
  with wfs have sizes: "length (vertical s) = Levels + 1" "length (nodeStack s) = Levels + 1"
    "length (Children (vertical s ! level)) = 17"
    by (simp_all add: resolver_wf_def list_all_length)
  have hs: "hashes s = hashes tr"
    using finishLevels_frame [OF s] by (simp add: tr2_def)
  have slot: "let stored = Children (vertical s' ! level) ! unat (hex ! level);
                   full = vertical s ! (level + 1);
                   keep = (onResolvingPath (resolveHexes tr) hex level
                             \<or> (hashes tr \<and> level = 5))
               in stored = (if keep
                            then (if fillCount s ! (level + 1) = 2 then full_duoCopy full
                                  else full_copy full)
                            else HashNode (snd (h (full_copy full) False))) \<and>
                  (is_branch stored \<longleftrightarrow> keep) \<and>
                  (is_hashNode stored \<longleftrightarrow> \<not> keep) \<and>
                  (fillCount s ! level = 0 \<longrightarrow> Val (nodeStack s' ! level) = stored)"
    if "2 \<le> fillCount s ! (level + 1)"
    using finishLevel_branch_slot [OF s' that sizes]
    unfolding path hs .
  from fk have fin: "finishKeyLevels h tr k =
      Inr (t\<lparr>startLevel := stopLevel\<rparr>, reqIndices tr ! keyIdx tr)"
    by (simp add: tr1 ri)
  from run fk have last: "k \<noteq> None \<longrightarrow> trF = t\<lparr>startLevel := stopLevel\<rparr>"
    by (auto simp: finishPreviousKey_def tr1)
  from r s s' rest fin last path slot show ?thesis
    by blast
qed

theorem finishPreviousKey_branch_slots_witness:
  "(\<exists>s s'. finishLevels sample_hasher (keybytesToHex (replicate 32 0x12)) 65 0 5 5
              (adjustRhIndices
                 (placeValue sample_sibling_resolver 6 (keybytesToHex (replicate 32 0x12)))
                 (keybytesToHex (replicate 32 0x12))) = Inr s \<and>
            finishLevel sample_hasher (keybytesToHex (replicate 32 0x12)) 65 0 4 s = Inr s' \<and>
            onResolvingPath (resolveHexes sample_sibling_resolver)
              (keybytesToHex (replicate 32 0x12)) 4 \<and>
            Children (vertical s' ! 4) ! 1 =
              DuoNode 5 (HashNode (replicate 32 0x77))
                (ShortNode (0x20 # replicate 29 0x12) (ValueNode [1, 2, 3]))) \<and>
   (\<exists>s s'. finishLevels sample_hasher (keybytesToHex (replicate 32 0x12)) 0 0 5 5
              (adjustRhIndices
                 (placeValue
                    (sample_sibling_resolver\<lparr>resolveHexes := [keybytesToHex (replicate 32 0)]\<rparr>)
                    6 (keybytesToHex (replicate 32 0x12)))
                 (keybytesToHex (replicate 32 0x12))) = Inr s \<and>
            finishLevel sample_hasher (keybytesToHex (replicate 32 0x12)) 0 0 4 s = Inr s' \<and>
            \<not> onResolvingPath [keybytesToHex (replicate 32 0)]
                (keybytesToHex (replicate 32 0x12)) 4 \<and>
            Children (vertical s' ! 4) ! 1 = HashNode (replicate 32 0xAB))"
proof -
  let ?H = "keybytesToHex (replicate 32 0x12)"
  have A: "\<exists>s s'. finishLevels sample_hasher ?H 65 0 5 5
              (adjustRhIndices (placeValue sample_sibling_resolver 6 ?H) ?H) = Inr s \<and>
            finishLevel sample_hasher ?H 65 0 4 s = Inr s' \<and>
            onResolvingPath (resolveHexes sample_sibling_resolver) ?H 4 \<and>
            Children (vertical s' ! 4) ! 1 =
              DuoNode 5 (HashNode (replicate 32 0x77))
                (ShortNode (0x20 # replicate 29 0x12) (ValueNode [1, 2, 3]))"
  proof -
    let ?tr = sample_sibling_resolver
    let ?T2 = "adjustRhIndices (placeValue ?tr 6 ?H) ?H"
    let ?P = "finishPreviousKey sample_hasher ?tr None"
    let ?X = "finishLevels sample_hasher ?H 65 0 5 5 ?T2"
    have key: "keybytesToHex (tr_key ?tr) = ?H"
      by (simp add: sample_sibling_resolver_def sample_resolver_def)
    have ext: "extResolvePos (requests ?tr ! (reqIndices ?tr ! keyIdx ?tr)) = 0"
      by code_simp
    have start: "max (max (startLevel ?tr) 0) 0 + 1 = 6" "max (max (startLevel ?tr) 0) 0 = 5"
      by code_simp+
    have six: "(5 :: nat) + 1 = 6"
      by simp
    have "\<not> isl ?P"
      by code_simp
    then have run: "?P = Inr (fst (projr ?P), snd (projr ?P))"
      by simp
    have wf: "resolver_wf ?tr"
      by code_simp
    have pos: "rh_positioned ?tr (keybytesToHex (tr_key ?tr))"
      by code_simp
    have stop: "stopLevelFor None (tr_key ?tr) = Inr 0"
      by code_simp
    have lv: "(0 :: nat) \<le> 4"
      "4 \<le> max (max (startLevel ?tr)
                (extResolvePos (requests ?tr ! (reqIndices ?tr ! keyIdx ?tr)))) 0"
      by code_simp+
    have r65: "rhPrefixLenOf ?T2 ?H = Inr 65"
      by code_simp
    have "\<not> isl ?X"
      by code_simp
    then have X: "?X = Inr (projr ?X)"
      by simp
    have fc: "fillCount (projr ?X) ! (4 + 1) = 2"
      by code_simp
    have duo: "full_duoCopy (vertical (projr ?X) ! (4 + 1)) =
        DuoNode 5 (HashNode (replicate 32 0x77))
          (ShortNode (0x20 # replicate 29 0x12) (ValueNode [1, 2, 3]))"
      by code_simp
    have nib: "unat (?H ! 4) = 1"
      by code_simp
    have path: "onResolvingPath (resolveHexes ?tr) ?H 4"
      by code_simp
    from finishPreviousKey_branch_slots [OF run wf pos stop lv]
    obtain r s s' where
      r: "rhPrefixLenOf ?T2 ?H = Inr r" and
      s: "finishLevels sample_hasher ?H r 0 (Suc 4) 5 ?T2 = Inr s" and
      s': "finishLevel sample_hasher ?H r 0 4 s = Inr s'" and
      slot: "2 \<le> fillCount s ! (4 + 1) \<longrightarrow>
              (let stored = Children (vertical s' ! 4) ! unat (?H ! 4);
                   full = vertical s ! (4 + 1);
                   keep = (onResolvingPath (resolveHexes ?tr) ?H 4 \<or> (hashes ?tr \<and> (4 :: nat) = 5))
               in stored = (if keep
                            then (if fillCount s ! (4 + 1) = 2 then full_duoCopy full
                                  else full_copy full)
                            else HashNode (snd (sample_hasher (full_copy full) False))) \<and>
                  (is_branch stored \<longleftrightarrow> keep) \<and>
                  (is_hashNode stored \<longleftrightarrow> \<not> keep) \<and>
                  (fillCount s ! 4 = 0 \<longrightarrow> Val (nodeStack s' ! 4) = stored))"
      unfolding key ext start(2) six by blast
    from r r65 have r: "r = 65"
      by simp
    from s X have sX: "s = projr ?X"
      unfolding r by simp
    from slot have "Children (vertical s' ! 4) ! 1 =
        DuoNode 5 (HashNode (replicate 32 0x77))
          (ShortNode (0x20 # replicate 29 0x12) (ValueNode [1, 2, 3]))"
      unfolding sX fc duo nib Let_def using path by simp
    with s s' path show ?thesis
      unfolding r by auto
  qed
  have B: "\<exists>s s'. finishLevels sample_hasher ?H 0 0 5 5
              (adjustRhIndices
                 (placeValue
                    (sample_sibling_resolver\<lparr>resolveHexes := [keybytesToHex (replicate 32 0)]\<rparr>)
                    6 ?H) ?H) = Inr s \<and>
            finishLevel sample_hasher ?H 0 0 4 s = Inr s' \<and>
            \<not> onResolvingPath [keybytesToHex (replicate 32 0)] ?H 4 \<and>
            Children (vertical s' ! 4) ! 1 = HashNode (replicate 32 0xAB)"
  proof -
    let ?tr = "sample_sibling_resolver\<lparr>resolveHexes := [keybytesToHex (replicate 32 0)]\<rparr>"
    let ?T2 = "adjustRhIndices (placeValue ?tr 6 ?H) ?H"
    let ?P = "finishPreviousKey sample_hasher ?tr None"
    let ?X = "finishLevels sample_hasher ?H 0 0 5 5 ?T2"
    have key: "keybytesToHex (tr_key ?tr) = ?H"
      by (simp add: sample_sibling_resolver_def sample_resolver_def)
    have ext: "extResolvePos (requests ?tr ! (reqIndices ?tr ! keyIdx ?tr)) = 0"
      by code_simp
    have start: "max (max (startLevel ?tr) 0) 0 = 5"
      by code_simp
    have six: "(5 :: nat) + 1 = 6"
      by simp
    have rhs: "resolveHexes ?tr = [keybytesToHex (replicate 32 0)]"
      by simp
    have "\<not> isl ?P"
      by code_simp
    then have run: "?P = Inr (fst (projr ?P), snd (projr ?P))"
      by simp
    have wf: "resolver_wf ?tr"
      by code_simp
    have pos: "rh_positioned ?tr (keybytesToHex (tr_key ?tr))"
      by code_simp
    have stop: "stopLevelFor None (tr_key ?tr) = Inr 0"
      by code_simp
    have lv: "(0 :: nat) \<le> 4"
      "4 \<le> max (max (startLevel ?tr)
                (extResolvePos (requests ?tr ! (reqIndices ?tr ! keyIdx ?tr)))) 0"
      by code_simp+
    have r0: "rhPrefixLenOf ?T2 ?H = Inr 0"
      by code_simp
    have "\<not> isl ?X"
      by code_simp
    then have X: "?X = Inr (projr ?X)"
      by simp
    have fc: "fillCount (projr ?X) ! (4 + 1) = 2"
      by code_simp
    have nib: "unat (?H ! 4) = 1"
      by code_simp
    have path: "\<not> onResolvingPath [keybytesToHex (replicate 32 0)] ?H 4"
      by code_simp
    from finishPreviousKey_branch_slots [OF run wf pos stop lv]
    obtain r s s' where
      r: "rhPrefixLenOf ?T2 ?H = Inr r" and
      s: "finishLevels sample_hasher ?H r 0 (Suc 4) 5 ?T2 = Inr s" and
      s': "finishLevel sample_hasher ?H r 0 4 s = Inr s'" and
      slot: "2 \<le> fillCount s ! (4 + 1) \<longrightarrow>
              (let stored = Children (vertical s' ! 4) ! unat (?H ! 4);
                   full = vertical s ! (4 + 1);
                   keep = (onResolvingPath [keybytesToHex (replicate 32 0)] ?H 4
                             \<or> (hashes ?tr \<and> (4 :: nat) = 5))
               in stored = (if keep
                            then (if fillCount s ! (4 + 1) = 2 then full_duoCopy full
                                  else full_copy full)
                            else HashNode (snd (sample_hasher (full_copy full) False))) \<and>
                  (is_branch stored \<longleftrightarrow> keep) \<and>
                  (is_hashNode stored \<longleftrightarrow> \<not> keep) \<and>
                  (fillCount s ! 4 = 0 \<longrightarrow> Val (nodeStack s' ! 4) = stored))"
      unfolding key ext start six rhs by blast
    from r r0 have r: "r = 0"
      by simp
    from s X have sX: "s = projr ?X"
      unfolding r by simp
    from slot have "Children (vertical s' ! 4) ! 1 = HashNode (replicate 32 0xAB)"
      unfolding sX fc nib Let_def using path by (simp add: sample_hasher_def)
    with s s' path show ?thesis
      unfolding r by auto
  qed
  from A B show ?thesis
    by (rule conjI)
qed

subsection \<open>The cursor along the walk\<close>

lemma rh_frame_blocks [simp]:
  "resolveHexes (clear_level tr l) = resolveHexes tr"
  "rhIndexGt (clear_level tr l) = rhIndexGt tr"
  "rhIndexLte (clear_level tr l) = rhIndexLte tr"
  "resolveHexes (afterLevel ext level tr) = resolveHexes tr"
  "rhIndexGt (afterLevel ext level tr) = rhIndexGt tr"
  "rhIndexLte (afterLevel ext level tr) = rhIndexLte tr"
  "resolveHexes (promoteShort n level tr) = resolveHexes tr"
  "rhIndexGt (promoteShort n level tr) = rhIndexGt tr"
  "rhIndexLte (promoteShort n level tr) = rhIndexLte tr"
  "resolveHexes (storeBranch c n level tr) = resolveHexes tr"
  "rhIndexGt (storeBranch c n level tr) = rhIndexGt tr"
  "rhIndexLte (storeBranch c n level tr) = rhIndexLte tr"
  by (simp_all add: clear_level_def afterLevel_def promoteShort_def storeBranch_def Let_def)

lemma finishLevel_rh_frame:
  assumes "finishLevel h hex rhPrefixLen ext level tr = Inr tr'"
  shows "rh_positioned tr' hex' = rh_positioned tr hex'"
  using assms
  by (auto simp: finishLevel_def Let_def rh_positioned_def split: if_splits prod.splits)

lemma finishLevels_rh_frame:
  "finishLevels h hex rhPrefixLen ext stopLevel level tr = Inr tr' \<Longrightarrow>
     rh_positioned tr' hex' = rh_positioned tr hex'"
proof (induction level arbitrary: tr)
  case 0
  then show ?case
    by (auto split: if_splits dest: finishLevel_rh_frame)
next
  case (Suc level)
  show ?case
  proof (cases "Suc level < stopLevel")
    case True
    with Suc.prems show ?thesis by simp
  next
    case False
    with Suc.prems obtain tr1 where
      a: "finishLevel h hex rhPrefixLen ext (Suc level) tr = Inr tr1" and
      b: "finishLevels h hex rhPrefixLen ext stopLevel level tr1 = Inr tr'"
      by (auto split: sum.splits)
    from finishLevel_rh_frame [OF a] Suc.IH [OF b] show ?thesis
      by simp
  qed
qed

text \<open>What is asked of the resolver above holds along the walk: it holds for a new
  resolver with sorted resolve keys, and the loop part of \<open>finishPreviousKey\<close> keeps it
  for every later key.\<close>

lemma finishKeyLevels_keeps_positioned:
  assumes run: "finishKeyLevels h tr k = Inr (tr', ri)"
    and wf: "resolver_wf tr"
    and pos: "rh_positioned tr (keybytesToHex (tr_key tr))"
    and le: "keybytesToHex (tr_key tr) \<le> hex'"
  shows "resolver_wf tr' \<and> rh_positioned tr' hex'"
proof -
  let ?hex = "keybytesToHex (tr_key tr)"
  from run obtain l r stopLevel ext start t where
    loop: "finishLevels h ?hex r ext stopLevel start
             (adjustRhIndices (placeValue tr l ?hex) ?hex) = Inr t" and
    tr': "tr' = t\<lparr>startLevel := stopLevel\<rparr>"
    unfolding finishKeyLevels_def
    by (auto simp: Let_def bindE_eq_Inr split: if_splits)
  let ?tr2 = "adjustRhIndices (placeValue tr l ?hex) ?hex"
  have "resolver_wf ?tr2"
    by (intro resolver_wf_adjustRhIndices resolver_wf_placeValue wf)
  from resolver_wf_finishLevels [OF loop this] have "resolver_wf t" .
  then have A: "resolver_wf tr'"
    by (simp add: tr' resolver_wf_def)
  from pos have "rh_positioned (placeValue tr l ?hex) ?hex"
    by simp
  from rh_positioned_adjustRhIndices [OF this le] have "rh_positioned ?tr2 hex'" .
  with finishLevels_rh_frame [OF loop] have "rh_positioned t hex'"
    by simp
  then have B: "rh_positioned tr' hex'"
    by (simp add: tr' rh_positioned_def)
  from A B show ?thesis ..
qed

subsection \<open>Account values\<close>

text \<open>C3. In account mode, when \<open>Walker\<close> accepts a non-empty value it keeps it in
  normal form: for a value of length 1 the RLP of the account with nonce 0, balance 0,
  the empty root and the empty code hash; for a longer value of less than 60 bytes the
  RLP of the account with the decoded nonce and balance, the empty root and the empty
  code hash; a value of 60 bytes or more as it is.\<close>

theorem Walker_account_value:
  assumes acc: "accounts tr" and ne: "v \<noteq> []"
    and ok: "Walker h tr idx k kcap v = Inr ((True, None), tr')"
  shows "(length v = 1 \<longrightarrow>
            Inr (tr_value tr') =
              encode_trie_Account \<lparr>t_Nonce = 0, t_Balance = Some 0, t_Root = emptyRoot,
                                   t_CodeHash = Some emptyCodeHash\<rparr>) \<and>
         (1 < length v \<and> length v < 60 \<longrightarrow>
            (\<exists>extData. decode_trie_ExtAccount v = Inr extData \<and>
               Inr (tr_value tr') =
                 encode_trie_Account \<lparr>t_Nonce = te_Nonce extData,
                                      t_Balance = te_Balance extData, t_Root = emptyRoot,
                                      t_CodeHash = Some emptyCodeHash\<rparr>)) \<and>
         (60 \<le> length v \<longrightarrow> tr_value tr' = v)"
proof -
  let ?first = "if idx \<noteq> keyIdx tr then
                  if key_set tr then
                    (case finishPreviousKey h tr None of
                       Inl p \<Rightarrow> Inl p
                     | Inr (Some err, tr1) \<Rightarrow> Inr (Some err, tr1)
                     | Inr (None, tr1) \<Rightarrow> Inr (None, tr1\<lparr>key_set := False, keyIdx := idx\<rparr>))
                  else Inr (None, tr\<lparr>keyIdx := idx\<rparr>)
                else Inr (None, tr)"
  from ok obtain e1 tr1 where first: "?first = Inr (e1, tr1)"
    unfolding Walker_def by (cases ?first) auto
  have e1: "e1 = None"
  proof (cases e1)
    case (Some err)
    with ok first show ?thesis
      unfolding Walker_def by simp
  qed simp
  have acc1: "accounts tr1"
    using first acc
    by (auto split: if_splits sum.splits option.splits dest!: finishPreviousKey_accounts)
  let ?second = "if key_set tr1 then finishPreviousKey h tr1 (Some k) else Inr (None, tr1)"
  from ne have lv: "0 < length v"
    by simp
  from ok first e1 lv obtain e2 tr2 where second: "?second = Inr (e2, tr2)"
    unfolding Walker_def by (cases ?second) auto
  have e2: "e2 = None"
  proof (cases e2)
    case (Some err)
    with ok first e1 lv second show ?thesis
      unfolding Walker_def by simp
  qed simp
  have acc2: "accounts tr2"
    using second acc1
    by (auto split: if_splits dest!: finishPreviousKey_accounts)
  let ?tr3 = "tr2\<lparr>tr_key := take 32 (k @ kcap)\<rparr>"
  let ?one = "encode_trie_Account \<lparr>t_Nonce = 0, t_Balance = Some 0, t_Root = emptyRoot,
                                   t_CodeHash = Some emptyCodeHash\<rparr>"
  from ok first e1 lv second e2 acc2 have rest:
    "\<not> length (k @ kcap) < 32 \<and>
     (if length v = 1 then
        (case ?one of
           Inl err \<Rightarrow> Inr ((False, Some (RlpError err)), ?tr3\<lparr>tr_value := []\<rparr>)
         | Inr b \<Rightarrow> Inr ((True, None), ?tr3\<lparr>tr_value := b, key_set := True\<rparr>))
      else if length v < 60 then
        (case decode_trie_ExtAccount v of
           Inl err \<Rightarrow> Inr ((False, Some (RlpError err)), ?tr3)
         | Inr extData \<Rightarrow>
             (case encode_trie_Account
                     \<lparr>t_Nonce = te_Nonce extData, t_Balance = te_Balance extData,
                      t_Root = emptyRoot, t_CodeHash = Some emptyCodeHash\<rparr> of
                Inl err \<Rightarrow> Inr ((False, Some (RlpError err)), ?tr3\<lparr>tr_value := []\<rparr>)
              | Inr b \<Rightarrow> Inr ((True, None), ?tr3\<lparr>tr_value := b, key_set := True\<rparr>)))
      else Inr ((True, None), ?tr3\<lparr>tr_value := v, key_set := True\<rparr>)) =
       (Inr ((True, None), tr') :: error + ((bool \<times> error option) \<times> TrieResolver))"
    unfolding Walker_def by (simp add: Let_def del: take_append length_append split: if_splits)
  show ?thesis
  proof (intro conjI impI)
    assume "length v = 1"
    with rest show "Inr (tr_value tr') = ?one"
      by (auto split: sum.splits)
  next
    assume "1 < length v \<and> length v < 60"
    with rest show "\<exists>extData. decode_trie_ExtAccount v = Inr extData \<and>
               Inr (tr_value tr') =
                 encode_trie_Account \<lparr>t_Nonce = te_Nonce extData,
                                      t_Balance = te_Balance extData, t_Root = emptyRoot,
                                      t_CodeHash = Some emptyCodeHash\<rparr>"
      by (auto split: sum.splits)
  next
    assume "60 \<le> length v"
    with rest show "tr_value tr' = v"
      by (auto split: if_splits)
  qed
qed

theorem Walker_account_value_witness:
  "\<exists>tr'. Walker sample_hasher (NewResolver False True 0) 0 (replicate 32 0) [] [0xC2, 3, 5] =
            Inr ((True, None), tr') \<and>
          Inr (tr_value tr') =
            encode_trie_Account \<lparr>t_Nonce = 3, t_Balance = Some 5, t_Root = emptyRoot,
                                 t_CodeHash = Some emptyCodeHash\<rparr>"
proof -
  let ?W = "Walker sample_hasher (NewResolver False True 0) 0 (replicate 32 0) [] [0xC2, 3, 5]"
  have "\<not> isl ?W" and r: "fst (projr ?W) = (True, None)"
    by code_simp+
  then have w: "?W = Inr ((True, None), snd (projr ?W))"
    by (metis prod.collapse sum.collapse(2))
  have acc: "accounts (NewResolver False True 0)"
    by (simp add: NewResolver_def)
  have ne: "[0xC2, 3, 5] \<noteq> ([] :: byte list)"
    by simp
  have dec: "decode_trie_ExtAccount [0xC2, 3, 5] = Inr \<lparr>te_Nonce = 3, te_Balance = Some 5\<rparr>"
    by code_simp
  from Walker_account_value [OF acc ne w] dec
  have "Inr (tr_value (snd (projr ?W))) =
      encode_trie_Account \<lparr>t_Nonce = 3, t_Balance = Some 5, t_Root = emptyRoot,
                           t_CodeHash = Some emptyCodeHash\<rparr>"
    by simp
  with w show ?thesis
    by blast
qed

text \<open>A value of 2 to 59 bytes that is not the RLP of a nonce and a balance is not
  stored: \<open>Walker\<close> returns the decoder's error.\<close>

lemma Walker_rejects_undecodable:
  assumes "accounts tr" "\<not> key_set tr" "idx = keyIdx tr" "32 \<le> length (k @ kcap)"
    and "1 < length v" "length v < 60" "decode_trie_ExtAccount v = Inl err"
  shows "Walker h tr idx k kcap v =
           Inr ((False, Some (RlpError err)), tr\<lparr>tr_key := take 32 (k @ kcap)\<rparr>)"
  using assms by (auto simp: Walker_def Let_def simp del: take_append)

text \<open>The key is resliced, not checked against its length: a key of 20 bytes in a
  buffer of 32 is accepted, and the 12 bytes behind it become part of the resolver's
  key; only a buffer shorter than 32 bytes is an index out of range.\<close>

lemma Walker_reslices_key:
  "\<not> isl (Walker sample_hasher (NewResolver False True 0) 0 (replicate 20 0) (replicate 12 7)
            [0xC2, 3, 5]) \<and>
   tr_key (snd (projr (Walker sample_hasher (NewResolver False True 0) 0 (replicate 20 0)
                         (replicate 12 7) [0xC2, 3, 5]))) = replicate 20 0 @ replicate 12 7 \<and>
   Walker sample_hasher (NewResolver False True 0) 0 (replicate 20 0) [] [0xC2, 3, 5] =
     Inl PanicIndexOutOfRange"
  by code_simp

end
